theory Spec2Isabelle
  imports Complex_Main
begin

section \<open>DC analysis of the ahkab circuit simulator (\<open>dc_analysis.py\<close>)\<close>

text \<open>
  A shallow embedding of the functions of \<open>src/ahkab/dc_analysis.py\<close>.
  Python floats and numpy's float64 are modelled as exact reals, so rounding, infinities
  and NaN are outside this development.  A numpy column matrix of shape \<open>(n, 1)\<close> is a
  list of reals, a numpy matrix a list of rows.  Every \<open>raise\<close>, every \<open>sys.exit\<close> and
  every failing index or name lookup of the source is a value of type \<open>error\<close>.
\<close>

subsection \<open>Exceptions and Python/numpy helpers\<close>

datatype error =
    IndexError
  | ValueError string
  | Exception string
  | NameError string
  | ZeroDivisionError
  | LinAlgError
  | OverflowError
  | SystemExit nat

type_synonym vec = "real list"
type_synonym mat = "real list list"

text \<open>Sequencing of computations that may raise: the first exception wins.\<close>

fun ebind :: "error + 'a \<Rightarrow> ('a \<Rightarrow> error + 'b) \<Rightarrow> error + 'b" where
  "ebind (Inl e) f = Inl e"
| "ebind (Inr v) f = f v"

text \<open>Python indexing into a sequence of length \<open>n\<close>: a negative index counts from the end.\<close>

definition py_index :: "nat \<Rightarrow> int \<Rightarrow> error + nat" where
  "py_index n k =
     (if 0 \<le> k \<and> k < int n then Inr (nat k)
      else if k < 0 \<and> - int n \<le> k then Inr (nat (k + int n))
      else Inl IndexError)"

definition vget :: "vec \<Rightarrow> int \<Rightarrow> error + real" where
  "vget v k = ebind (py_index (length v) k) (\<lambda>j. Inr (v ! j))"

definition vset :: "vec \<Rightarrow> int \<Rightarrow> real \<Rightarrow> error + vec" where
  "vset v k a = ebind (py_index (length v) k) (\<lambda>j. Inr (v[j := a]))"

text \<open>Python slices \<open>x[:k]\<close> and \<open>x[k:]\<close>.\<close>

definition py_take :: "int \<Rightarrow> 'a list \<Rightarrow> 'a list" where
  "py_take k xs = (if 0 \<le> k then take (nat k) xs else take (nat (int (length xs) + k)) xs)"

definition py_drop :: "int \<Rightarrow> 'a list \<Rightarrow> 'a list" where
  "py_drop k xs = (if 0 \<le> k then drop (nat k) xs else drop (nat (int (length xs) + k)) xs)"

text \<open>
  An elementwise numpy operation on two column matrices: equal row counts, or one of them
  has a single row, which is broadcast; otherwise numpy raises \<open>ValueError\<close>.
\<close>

definition np_zip :: "(real \<Rightarrow> real \<Rightarrow> 'a) \<Rightarrow> vec \<Rightarrow> vec \<Rightarrow> error + 'a list" where
  "np_zip f a b =
     (if length a = length b then Inr (map2 f a b)
      else if length a = 1 then Inr (map (f (hd a)) b)
      else if length b = 1 then Inr (map (\<lambda>u. f u (hd b)) a)
      else Inl (ValueError ''operands could not be broadcast together''))"

definition np_add :: "vec \<Rightarrow> vec \<Rightarrow> error + vec" where
  "np_add a b = np_zip (+) a b"

definition np_scale :: "real \<Rightarrow> vec \<Rightarrow> vec" where
  "np_scale c v = map (\<lambda>u. c * u) v"

definition zeros :: "nat \<Rightarrow> vec" where
  "zeros n = replicate n 0"

text \<open>\<open>numpy.allclose(a, b, rtol, atol)\<close>: every entry has \<open>|a - b| \<le> atol + rtol * |b|\<close>.\<close>

definition allclose :: "vec \<Rightarrow> vec \<Rightarrow> real \<Rightarrow> real \<Rightarrow> error + bool" where
  "allclose a b rtol atol =
     ebind (np_zip (\<lambda>u v. \<bar>u - v\<bar> \<le> atol + rtol * \<bar>v\<bar>) a b) (\<lambda>bs. Inr (list_all id bs))"

subsection \<open>Configuration\<close>

text \<open>
  The modules \<open>options\<close> and \<open>constants\<close> are not among the sources; the values this file
  reads from them are the fields of one record.  \<open>Vth\<close> is \<open>constants.Vth()\<close>.
\<close>

record options =
  gmin :: real
  dc_max_nr_iter :: int
  dc_use_guess :: bool
  dc_sweep_skip_allowed :: bool
  use_standard_solve_method :: bool
  use_gmin_stepping :: bool
  use_source_stepping :: bool
  nr_damp_first_iters :: bool
  nl_voltages_lock :: bool
  nl_voltages_lock_factor :: real
  ver :: real
  vea :: real
  ier :: real
  iea :: real
  dc_lin_step :: string
  dc_log_step :: string
  Vth :: real

subsection \<open>Damping: \<open>get_td\<close>\<close>

text \<open>
  One pass of the loop body over a locked pair \<open>(n1, n2)\<close>: the new value of \<open>td_new\<close>,
  which keeps its previous value when the voltage step does not exceed the limit.
\<close>

definition lock_td_new :: "options \<Rightarrow> vec \<Rightarrow> nat \<Rightarrow> nat \<Rightarrow> real \<Rightarrow> error + real" where
  "lock_td_new opts dx n1 n2 td_new =
     (let lim = nl_voltages_lock_factor opts * Vth opts in
      if n1 \<noteq> 0 then
        if n2 \<noteq> 0 then
          ebind (vget dx (int n1 - 1)) (\<lambda>a. ebind (vget dx (int n2 - 1)) (\<lambda>b.
            Inr (if \<bar>a - b\<bar> > lim then lim / \<bar>a - b\<bar> else td_new)))
        else
          ebind (vget dx (int n1 - 1)) (\<lambda>a.
            Inr (if \<bar>a\<bar> > lim then lim / \<bar>a\<bar> else td_new))
      else
        ebind (vget dx (int n2 - 1)) (\<lambda>b.
          Inr (if \<bar>b\<bar> > lim then lim / \<bar>b\<bar> else td_new)))"

text \<open>The loop over \<open>locked_nodes\<close>, on the pair of variables \<open>(td, td_new)\<close>.\<close>

fun get_td_loop :: "options \<Rightarrow> vec \<Rightarrow> (nat \<times> nat) list \<Rightarrow> real \<Rightarrow> real \<Rightarrow> error + real" where
  "get_td_loop opts dx [] td td_new = Inr td"
| "get_td_loop opts dx ((n1, n2) # rest) td td_new =
     ebind (lock_td_new opts dx n1 n2 td_new) (\<lambda>tn.
       get_td_loop opts dx rest (if tn < td then tn else td) tn)"

definition get_td :: "options \<Rightarrow> vec \<Rightarrow> (nat \<times> nat) list \<Rightarrow> int \<Rightarrow> error + real" where
  "get_td opts dx locked_nodes n =
     (let td = (if \<not> nr_damp_first_iters opts \<or> n < 0 then 1
                else if n < 10 then 1 / 100
                else if n < 20 then 1 / 10
                else 1)
      in if nl_voltages_lock opts then get_td_loop opts dx locked_nodes td 1 else Inr td)"

subsection \<open>Convergence check\<close>

text \<open>
  The debug branch of \<open>custom_convergence_check\<close>: one boolean per entry, stopping at the
  first entry that fails.
\<close>

fun debug_check_loop :: "vec \<Rightarrow> vec \<Rightarrow> vec \<Rightarrow> real \<Rightarrow> real \<Rightarrow> real \<Rightarrow> nat list \<Rightarrow> bool list
    \<Rightarrow> error + bool list" where
  "debug_check_loop x dx residuum er ea eresiduum [] acc = Inr acc"
| "debug_check_loop x dx residuum er ea eresiduum (k # ks) acc =
     ebind (vget dx (int k)) (\<lambda>d. ebind (vget x (int k)) (\<lambda>xv.
       if \<bar>d\<bar> < er * \<bar>xv\<bar> + ea then
         ebind (vget residuum (int k)) (\<lambda>r.
           if \<bar>r\<bar> < eresiduum
           then debug_check_loop x dx residuum er ea eresiduum ks (acc @ [True])
           else Inr (acc @ [False]))
       else Inr (acc @ [False])))"

definition custom_convergence_check ::
    "vec \<Rightarrow> vec \<Rightarrow> vec \<Rightarrow> real \<Rightarrow> real \<Rightarrow> real \<Rightarrow> bool \<Rightarrow> error + bool \<times> bool list" where
  "custom_convergence_check x dx residuum er ea eresiduum debug =
     (if length x \<noteq> 0 then
        if \<not> debug then
          ebind (np_add x dx) (\<lambda>xdx.
          ebind (allclose x xdx er ea) (\<lambda>c1.
            if c1 then
              ebind (allclose residuum (zeros (length residuum)) 0 eresiduum) (\<lambda>c2. Inr (c2, []))
            else Inr (False, [])))
        else
          ebind (debug_check_loop x dx residuum er ea eresiduum [0..<length x] []) (\<lambda>rs.
            Inr (False \<notin> set rs, rs))
      else Inr (True, []))"

definition voltage_convergence_check ::
    "options \<Rightarrow> vec \<Rightarrow> vec \<Rightarrow> vec \<Rightarrow> bool \<Rightarrow> error + bool \<times> bool list" where
  "voltage_convergence_check opts x dx residuum debug =
     custom_convergence_check x dx residuum (ver opts) (vea opts) (iea opts) debug"

definition current_convergence_check ::
    "options \<Rightarrow> vec \<Rightarrow> vec \<Rightarrow> vec \<Rightarrow> bool \<Rightarrow> error + bool \<times> bool list" where
  "current_convergence_check opts x dx residuum debug =
     custom_convergence_check x dx residuum (ier opts) (iea opts) (vea opts) debug"

text \<open>
  \<open>convergence_check\<close> takes a \<open>debug\<close> argument and does not pass it on: both block checks
  run with their default \<open>debug=False\<close>.
\<close>

definition convergence_check ::
    "options \<Rightarrow> vec \<Rightarrow> vec \<Rightarrow> vec \<Rightarrow> int \<Rightarrow> bool \<Rightarrow> error + bool \<times> bool list" where
  "convergence_check opts x dx residuum nv_minus_one debug =
     ebind (voltage_convergence_check opts (py_take nv_minus_one x) (py_take nv_minus_one dx)
              (py_take nv_minus_one residuum) False) (\<lambda>(vcheck, vresults).
     ebind (current_convergence_check opts (py_drop nv_minus_one x) (py_drop nv_minus_one dx)
              (py_drop nv_minus_one residuum) False) (\<lambda>(icheck, iresults).
       Inr (vcheck \<and> icheck, vresults @ iresults)))"

subsection \<open>Elements and circuits\<close>

text \<open>
  The classes of the modules \<open>devices\<close> and \<open>diode\<close> (not among the sources) that
  \<open>isinstance\<close> tells apart, and the attributes and methods this file reads from an element.
  A nonlinear device gives its currents and conductances through \<open>elem_i\<close> and \<open>elem_g\<close>,
  which may raise (an overflowing exponential raises \<open>OverflowError\<close>).  The optional real
  argument is \<open>time\<close>.
\<close>

datatype elem_class =
    Resistor | Capacitor | Inductor | Inductor_coupling | Vsource | Isource
  | Gisource | Evsource | Hvsource | Diode | Nonlinear_device

record element =
  elem_class :: elem_class
  letter_id :: string
  descr :: string
  elem_n1 :: nat
  elem_n2 :: nat
  is_nonlinear :: bool
  is_timedependent :: bool
  vdc :: real
  idc :: real
  ic :: "real option"
  elem_V :: "real option \<Rightarrow> real"
  elem_I :: "real option \<Rightarrow> real"
  get_output_ports :: "(nat \<times> nat) list"
  get_drive_ports :: "nat \<Rightarrow> (nat \<times> nat) list"
  elem_i :: "nat \<Rightarrow> real list \<Rightarrow> real option \<Rightarrow> error + real"
  elem_g :: "nat \<Rightarrow> real list \<Rightarrow> nat \<Rightarrow> real option \<Rightarrow> error + real"

record circuit =
  nodes_dict :: "(nat \<times> string) list"
  elements :: "element list"

text \<open>
  Modelled from the spec: the helpers of the module \<open>circuit\<close>, which is not among the
  sources.  A device is voltage-defined iff it is a vsource, evsource, hvsource or inductor;
  a circuit is nonlinear iff one of its elements is; the locked nodes are the drive ports of
  the nonlinear elements, output port by output port.
\<close>

definition is_elem_voltage_defined :: "element \<Rightarrow> bool" where
  "is_elem_voltage_defined elem =
     (elem_class elem = Vsource \<or> elem_class elem = Evsource \<or> elem_class elem = Hvsource
      \<or> elem_class elem = Inductor)"

definition circ_is_nonlinear :: "circuit \<Rightarrow> bool" where
  "circ_is_nonlinear circ = list_ex is_nonlinear (elements circ)"

definition get_locked_nodes :: "circuit \<Rightarrow> (nat \<times> nat) list" where
  "get_locked_nodes circ =
     concat (map (\<lambda>elem. concat (map (get_drive_ports elem) [0..<length (get_output_ports elem)]))
               (filter is_nonlinear (elements circ)))"

subsection \<open>Dense linear algebra\<close>

text \<open>
  The numpy operations of the solver on matrices whose shapes agree; numpy raises
  \<open>ValueError\<close> when they do not.  (Broadcasting between matrices is not modelled: the
  matrices of the solver are square of one size.)
\<close>

definition mat_vec :: "mat \<Rightarrow> vec \<Rightarrow> error + vec" where
  "mat_vec m v =
     (if list_all (\<lambda>r. length r = length v) m
      then Inr (map (\<lambda>r. sum_list (map2 (*) r v)) m)
      else Inl (ValueError ''shapes not aligned''))"

definition mat_add :: "mat \<Rightarrow> mat \<Rightarrow> error + mat" where
  "mat_add a b =
     (if length a = length b \<and> list_all2 (\<lambda>r s. length r = length s) a b
      then Inr (map2 (map2 (+)) a b)
      else Inl (ValueError ''operands could not be broadcast together''))"

definition mat_zeros :: "nat \<Rightarrow> nat \<Rightarrow> mat" where
  "mat_zeros r c = replicate r (replicate c 0)"

text \<open>\<open>J[r, c] += a\<close> on a numpy matrix.\<close>

definition mat_add_at :: "mat \<Rightarrow> int \<Rightarrow> int \<Rightarrow> real \<Rightarrow> error + mat" where
  "mat_add_at J r c a =
     ebind (py_index (length J) r) (\<lambda>i.
     ebind (py_index (length (J ! i)) c) (\<lambda>j.
       Inr (J[i := (J ! i)[j := J ! i ! j + a]])))"

text \<open>\<open>v[k, 0] += a\<close> on a numpy column matrix.\<close>

definition vec_add_at :: "vec \<Rightarrow> int \<Rightarrow> real \<Rightarrow> error + vec" where
  "vec_add_at v k a = ebind (py_index (length v) k) (\<lambda>j. Inr (v[j := v ! j + a]))"

text \<open>
  \<open>numpy.linalg.inv\<close> on exact reals: the inverse of a square matrix whose determinant is
  not zero, by cofactors, and \<open>LinAlgError\<close> for a matrix that is not square or is singular.
\<close>

definition remove_nth :: "nat \<Rightarrow> 'a list \<Rightarrow> 'a list" where
  "remove_nth j xs = take j xs @ drop (Suc j) xs"

function det :: "mat \<Rightarrow> real" where
  "det [] = 1"
| "det (r # rs) =
     sum_list (map (\<lambda>j. (- 1) ^ j * (r ! j) * det (map (remove_nth j) rs)) [0..<length r])"
  by pat_completeness auto
termination
  by (relation "measure length") auto

definition minor :: "mat \<Rightarrow> nat \<Rightarrow> nat \<Rightarrow> mat" where
  "minor m i j = map (remove_nth j) (remove_nth i m)"

definition linalg_inv :: "mat \<Rightarrow> error + mat" where
  "linalg_inv m =
     (if \<not> list_all (\<lambda>r. length r = length m) m then Inl LinAlgError
      else if det m = 0 then Inl LinAlgError
      else Inr (map (\<lambda>i. map (\<lambda>j. (- 1) ^ (i + j) * det (minor m j i) / det m) [0..<length m])
                  [0..<length m]))"

subsection \<open>Nonlinear contributions: \<open>build_J_and_Tx\<close> and \<open>update_J_and_Tx\<close>\<close>

text \<open>The voltage across a drive port; node \<open>m\<close> is entry \<open>m - 1\<close> of \<open>x\<close>, ground adds nothing.\<close>

definition port_voltage :: "vec \<Rightarrow> nat \<times> nat \<Rightarrow> error + real" where
  "port_voltage x port =
     ebind (if fst port \<noteq> 0 then ebind (vget x (int (fst port) - 1)) (\<lambda>a. Inr (0 + a)) else Inr 0)
       (\<lambda>v. if snd port \<noteq> 0 then ebind (vget x (int (snd port) - 1)) (\<lambda>b. Inr (v - b)) else Inr v)"

fun drive_voltages :: "vec \<Rightarrow> (nat \<times> nat) list \<Rightarrow> error + real list" where
  "drive_voltages x [] = Inr []"
| "drive_voltages x (port # ports) =
     ebind (port_voltage x port) (\<lambda>v. ebind (drive_voltages x ports) (\<lambda>vs. Inr (v # vs)))"

text \<open>The four conditional stamps of one conductance \<open>g\<close> for output port \<open>(n1, n2)\<close>.\<close>

definition stamp_g :: "mat \<Rightarrow> nat \<Rightarrow> nat \<Rightarrow> nat \<times> nat \<Rightarrow> real \<Rightarrow> error + mat" where
  "stamp_g J n1 n2 dport g =
     ebind (if n1 \<noteq> 0 \<and> fst dport \<noteq> 0
            then mat_add_at J (int n1 - 1) (int (fst dport) - 1) g else Inr J) (\<lambda>J.
     ebind (if n1 \<noteq> 0 \<and> snd dport \<noteq> 0
            then mat_add_at J (int n1 - 1) (int (snd dport) - 1) (- g) else Inr J) (\<lambda>J.
     ebind (if n2 \<noteq> 0 \<and> fst dport \<noteq> 0
            then mat_add_at J (int n2 - 1) (int (fst dport) - 1) (- g) else Inr J) (\<lambda>J.
           (if n2 \<noteq> 0 \<and> snd dport \<noteq> 0
            then mat_add_at J (int n2 - 1) (int (snd dport) - 1) g else Inr J))))"

text \<open>The inner loop over the drive ports \<open>iindex\<close> of output port \<open>index\<close>.\<close>

fun stamp_drive_ports ::
    "element \<Rightarrow> real option \<Rightarrow> nat \<Rightarrow> real list \<Rightarrow> (nat \<times> nat) list \<Rightarrow> nat \<Rightarrow> nat \<Rightarrow> nat list \<Rightarrow> mat
     \<Rightarrow> error + mat" where
  "stamp_drive_ports elem time index v_dports dports n1 n2 [] J = Inr J"
| "stamp_drive_ports elem time index v_dports dports n1 n2 (iindex # rest) J =
     (if n1 \<noteq> 0 \<or> n2 \<noteq> 0 then
        ebind (elem_g elem index v_dports iindex time) (\<lambda>g.
        ebind (stamp_g J n1 n2 (dports ! iindex) g) (\<lambda>J.
          stamp_drive_ports elem time index v_dports dports n1 n2 rest J))
      else stamp_drive_ports elem time index v_dports dports n1 n2 rest J)"

text \<open>The body of the loop over the output ports of one element.\<close>

definition update_output_port ::
    "vec \<Rightarrow> element \<Rightarrow> real option \<Rightarrow> nat \<Rightarrow> mat \<times> vec \<Rightarrow> error + mat \<times> vec" where
  "update_output_port x elem time index JTx =
     (let n1 = fst (get_output_ports elem ! index);
          n2 = snd (get_output_ports elem ! index);
          dports = get_drive_ports elem index
      in ebind (drive_voltages x dports) (\<lambda>v_dports.
         ebind (if n1 \<noteq> 0 \<or> n2 \<noteq> 0 then elem_i elem index v_dports time else Inr 0) (\<lambda>iel.
         ebind (if n1 \<noteq> 0 then vec_add_at (snd JTx) (int n1 - 1) iel else Inr (snd JTx)) (\<lambda>Tx.
         ebind (if n2 \<noteq> 0 then vec_add_at Tx (int n2 - 1) (- iel) else Inr Tx) (\<lambda>Tx.
         ebind (stamp_drive_ports elem time index v_dports dports n1 n2 [0..<length dports] (fst JTx))
           (\<lambda>J. Inr (J, Tx)))))))"

fun update_loop ::
    "vec \<Rightarrow> element \<Rightarrow> real option \<Rightarrow> nat list \<Rightarrow> mat \<times> vec \<Rightarrow> error + mat \<times> vec" where
  "update_loop x elem time [] JTx = Inr JTx"
| "update_loop x elem time (index # rest) JTx =
     ebind (update_output_port x elem time index JTx) (update_loop x elem time rest)"

definition update_J_and_Tx ::
    "mat \<Rightarrow> vec \<Rightarrow> vec \<Rightarrow> element \<Rightarrow> real option \<Rightarrow> error + mat \<times> vec" where
  "update_J_and_Tx J Tx x elem time =
     update_loop x elem time [0..<length (get_output_ports elem)] (J, Tx)"

fun build_loop :: "vec \<Rightarrow> real option \<Rightarrow> element list \<Rightarrow> mat \<times> vec \<Rightarrow> error + mat \<times> vec" where
  "build_loop x time [] JTx = Inr JTx"
| "build_loop x time (elem # rest) JTx =
     (if is_nonlinear elem
      then ebind (update_J_and_Tx (fst JTx) (snd JTx) x elem time) (build_loop x time rest)
      else build_loop x time rest JTx)"

definition build_J_and_Tx ::
    "vec \<Rightarrow> nat \<Rightarrow> element list \<Rightarrow> real option \<Rightarrow> error + mat \<times> vec" where
  "build_J_and_Tx x mna_size element_list time =
     build_loop x time element_list (mat_zeros mna_size mna_size, zeros mna_size)"

subsection \<open>The Newton-Raphson kernel: \<open>mdn_solver\<close>\<close>

text \<open>
  The body of the \<open>while\<close> loop, for the value \<open>iteration\<close> already incremented: the new
  \<open>x\<close>, \<open>dx\<close> and \<open>residuo\<close>, and whether the loop is left with \<open>converged = True\<close>.
  In a linear circuit \<open>Tx\<close> is the scalar 0.
\<close>

definition nr_iteration ::
    "options \<Rightarrow> mat \<Rightarrow> circuit \<Rightarrow> vec \<Rightarrow> int \<Rightarrow> (nat \<times> nat) list \<Rightarrow> real option \<Rightarrow> bool \<Rightarrow> vec \<Rightarrow> int
     \<Rightarrow> error + vec \<times> vec \<times> vec \<times> bool" where
  "nr_iteration opts mna circ T nv locked_nodes time nonlinear_circuit x iteration =
     ebind (if nonlinear_circuit then
              ebind (build_J_and_Tx x (length mna) (elements circ) time) (\<lambda>(J, Tx).
              ebind (mat_add J mna) (\<lambda>J. Inr (J, Some Tx)))
            else Inr (mna, None)) (\<lambda>(J, Tx).
     ebind (mat_vec mna x) (\<lambda>mx.
     ebind (np_add mx T) (\<lambda>mxT.
     ebind (case Tx of None \<Rightarrow> Inr mxT | Some tx \<Rightarrow> np_add mxT tx) (\<lambda>residuo.
     ebind (linalg_inv J) (\<lambda>Jinv.
     ebind (mat_vec Jinv (np_scale (- 1) residuo)) (\<lambda>dx.
     ebind (get_td opts dx locked_nodes iteration) (\<lambda>td.
     ebind (np_add x (np_scale td dx)) (\<lambda>x.
       if \<not> nonlinear_circuit then Inr (x, dx, residuo, True)
       else ebind (convergence_check opts x dx residuo (nv - 1) False) (\<lambda>(c, by_node).
              Inr (x, dx, residuo, c))))))))))"

text \<open>
  The loop \<open>while iteration < MAXIT\<close>.  \<open>dx\<close> and \<open>residuo\<close> are unbound (\<open>None\<close>) until the
  first pass has assigned them.
\<close>

function mdn_loop ::
    "options \<Rightarrow> mat \<Rightarrow> circuit \<Rightarrow> vec \<Rightarrow> int \<Rightarrow> int \<Rightarrow> (nat \<times> nat) list \<Rightarrow> real option \<Rightarrow> bool
     \<Rightarrow> vec \<Rightarrow> vec option \<Rightarrow> vec option \<Rightarrow> int
     \<Rightarrow> error + vec \<times> vec option \<times> vec option \<times> bool \<times> int" where
  "mdn_loop opts mna circ T MAXIT nv locked_nodes time nonlinear_circuit x dx residuo iteration =
     (if iteration < MAXIT then
        (case nr_iteration opts mna circ T nv locked_nodes time nonlinear_circuit x (iteration + 1) of
           Inl e \<Rightarrow> Inl e
         | Inr (x', dx', residuo', conv) \<Rightarrow>
             if conv then Inr (x', Some dx', Some residuo', True, iteration + 1)
             else mdn_loop opts mna circ T MAXIT nv locked_nodes time nonlinear_circuit
                    x' (Some dx') (Some residuo') (iteration + 1))
      else Inr (x, dx, residuo, False, iteration))"
  by pat_completeness auto
termination
  by (relation "measure (\<lambda>(opts, mna, circ, T, MAXIT, nv, locked_nodes, time, nl, x, dx, residuo,
        iteration). nat (MAXIT - iteration))") auto

text \<open>
  \<open>mdn_solver(x, mna, circ, T, MAXIT, nv, locked_nodes, time, ..., debug)\<close>.  The progress
  ticker is left out.  The message of the size exception is the source's without the two
  sizes it appends.  With \<open>MAXIT \<le> 0\<close> the loop body never runs and the \<open>return\<close> reads the
  unbound \<open>residuo\<close>.
\<close>

definition mdn_solver ::
    "options \<Rightarrow> vec option \<Rightarrow> mat \<Rightarrow> circuit \<Rightarrow> vec option \<Rightarrow> int \<Rightarrow> int \<Rightarrow> (nat \<times> nat) list
     \<Rightarrow> real option \<Rightarrow> bool \<Rightarrow> error + vec \<times> vec \<times> bool \<times> int \<times> bool list" where
  "mdn_solver opts x mna circ T MAXIT nv locked_nodes time debug =
     (let mna_size = length mna;
          nonlinear_circuit = circ_is_nonlinear circ
      in ebind (case x of
                  None \<Rightarrow> Inr (zeros mna_size)
                | Some x \<Rightarrow>
                    if length x \<noteq> mna_size
                    then Inl (Exception ''x0s size is different from expected'')
                    else Inr x) (\<lambda>x.
         let T = (case T of None \<Rightarrow> zeros mna_size | Some T \<Rightarrow> T) in
         ebind (mdn_loop opts mna circ T MAXIT nv locked_nodes time nonlinear_circuit
                  x None None 0) (\<lambda>(x, dx, residuo, converged, iteration).
         ebind (if debug \<and> \<not> converged then
                  (case dx of
                     None \<Rightarrow> Inl (NameError ''dx'')
                   | Some dx \<Rightarrow>
                       (case residuo of
                          None \<Rightarrow> Inl (NameError ''residuo'')
                        | Some residuo \<Rightarrow> convergence_check opts x dx residuo (nv - 1) True))
                else Inr (converged, [])) (\<lambda>(converged, convergence_by_node).
           case residuo of
             None \<Rightarrow> Inl (NameError ''residuo'')
           | Some residuo \<Rightarrow> Inr (x, residuo, converged, iteration, convergence_by_node)))))"

subsection \<open>The convergence-aid driver: \<open>dc_solve\<close>\<close>

text \<open>The three dictionaries of \<open>get_solve_methods\<close>.\<close>

record solve_method =
  enabled :: bool
  failed :: bool

record 'a stepping = solve_method +
  factors :: "'a list"
  index :: int

text \<open>Python's \<open>int()\<close> of a float truncates toward zero; \<open>10**e\<close> for an integer \<open>e\<close>.\<close>

definition py_int :: "real \<Rightarrow> int" where
  "py_int r = (if 0 \<le> r then \<lfloor>r\<rfloor> else \<lceil>r\<rceil>)"

definition py_pow10 :: "int \<Rightarrow> real" where
  "py_pow10 e = (if 0 \<le> e then 10 ^ nat e else 1 / 10 ^ nat (- e))"

text \<open>
  \<open>numpy.log\<close> is the natural logarithm.  For \<open>gmin = 0\<close> it gives \<open>-inf\<close> and for a
  negative \<open>gmin\<close> NaN, of which \<open>int()\<close> raises \<open>OverflowError\<close> and \<open>ValueError\<close>.
  \<open>range(a, 0)\<close> reversed is the list \<open>-1, -2, ..., a\<close>.
\<close>

definition get_solve_methods ::
    "options \<Rightarrow> error + solve_method \<times> int stepping \<times> real stepping" where
  "get_solve_methods opts =
     (if gmin opts = 0 then Inl OverflowError
      else if gmin opts < 0 then Inl (ValueError ''cannot convert float NaN to integer'')
      else
        let standard_solving = \<lparr>enabled = False, failed = False\<rparr>;
            g_indices = rev [py_int (ln (gmin opts))..- 1];
            gmin_stepping = \<lparr>enabled = False, failed = False, factors = g_indices, index = 0\<rparr>;
            source_stepping = \<lparr>enabled = False, failed = False,
              factors = [1 / 1000, 5 / 1000, 1 / 100, 3 / 100, 1 / 10, 3 / 10, 5 / 10, 7 / 10,
                         8 / 10, 9 / 10],
              index = 0\<rparr>
        in Inr (standard_solving, gmin_stepping, source_stepping))"

definition set_next_solve_method ::
    "options \<Rightarrow> solve_method \<Rightarrow> int stepping \<Rightarrow> real stepping
     \<Rightarrow> solve_method \<times> int stepping \<times> real stepping" where
  "set_next_solve_method opts standard_solving gmin_stepping source_stepping =
     (let (standard_solving, gmin_stepping, source_stepping) =
            (if enabled standard_solving
             then (standard_solving\<lparr>enabled := False, failed := True\<rparr>, gmin_stepping,
                   source_stepping)
             else if enabled gmin_stepping
             then (standard_solving, gmin_stepping\<lparr>enabled := False, failed := True\<rparr>,
                   source_stepping)
             else if enabled source_stepping
             then (standard_solving, gmin_stepping,
                   source_stepping\<lparr>enabled := False, failed := True\<rparr>)
             else (standard_solving, gmin_stepping, source_stepping))
      in if \<not> failed standard_solving \<and> use_standard_solve_method opts
         then (standard_solving\<lparr>enabled := True\<rparr>, gmin_stepping, source_stepping)
         else if \<not> failed gmin_stepping \<and> use_gmin_stepping opts
         then (standard_solving, gmin_stepping\<lparr>enabled := True\<rparr>, source_stepping)
         else if \<not> failed source_stepping \<and> use_source_stepping opts
         then (standard_solving, gmin_stepping, source_stepping\<lparr>enabled := True\<rparr>)
         else (standard_solving, gmin_stepping, source_stepping))"

definition more_solve_methods_available ::
    "options \<Rightarrow> solve_method \<Rightarrow> int stepping \<Rightarrow> real stepping \<Rightarrow> bool" where
  "more_solve_methods_available opts standard_solving gmin_stepping source_stepping =
     (if (failed standard_solving \<or> \<not> use_standard_solve_method opts)
         \<and> (failed gmin_stepping \<or> \<not> use_gmin_stepping opts)
         \<and> (failed source_stepping \<or> \<not> use_source_stepping opts)
      then False else True)"

text \<open>\<open>M[r, c] = a\<close> on a numpy matrix, and \<open>build_gmin_matrix\<close>.\<close>

definition mat_set_at :: "mat \<Rightarrow> int \<Rightarrow> int \<Rightarrow> real \<Rightarrow> error + mat" where
  "mat_set_at M r c a =
     ebind (py_index (length M) r) (\<lambda>i.
     ebind (py_index (length (M ! i)) c) (\<lambda>j.
       Inr (M[i := (M ! i)[j := a]])))"

fun gmin_diag_loop :: "real \<Rightarrow> nat list \<Rightarrow> mat \<Rightarrow> error + mat" where
  "gmin_diag_loop g [] M = Inr M"
| "gmin_diag_loop g (k # ks) M = ebind (mat_set_at M (int k) (int k) g) (gmin_diag_loop g ks)"

definition build_gmin_matrix :: "circuit \<Rightarrow> real \<Rightarrow> nat \<Rightarrow> error + mat" where
  "build_gmin_matrix circ g mna_size =
     gmin_diag_loop g [0..<length (nodes_dict circ) - 1] (mat_zeros mna_size mna_size)"

text \<open>Reading a Python list or tuple at an integer index.\<close>

definition py_list_get :: "'a list \<Rightarrow> int \<Rightarrow> error + 'a" where
  "py_list_get xs k = ebind (py_index (length xs) k) (\<lambda>j. Inr (xs ! j))"

text \<open>
  The local variables of \<open>dc_solve\<close> that its \<open>while\<close> loop reads and writes.
  \<open>convergence_by_node\<close>, \<open>mna_to_pass\<close> and \<open>N_to_pass\<close> are unbound (\<open>None\<close>) until
  assigned; \<open>error\<close> is unbound or \<open>None\<close> until a solver call has returned.
\<close>

record solve_state =
  st_x :: vec
  st_error :: "vec option"
  st_tot_iterations :: int
  st_convergence_by_node :: "bool list option"
  st_mna_to_pass :: "mat option"
  st_N_to_pass :: "vec option"
  standard_solving :: solve_method
  gmin_stepping :: "int stepping"
  source_stepping :: "real stepping"

text \<open>\<open>mna + Gmin\<close> and \<open>N + Ntran\<close>, where an absent \<open>Gmin\<close> or \<open>Ntran\<close> is the scalar 0.\<close>

definition add_Gmin :: "mat \<Rightarrow> mat option \<Rightarrow> error + mat" where
  "add_Gmin mna Gmin = (case Gmin of None \<Rightarrow> Inr mna | Some G \<Rightarrow> mat_add mna G)"

definition add_Ntran :: "vec \<Rightarrow> vec option \<Rightarrow> error + vec" where
  "add_Ntran N Ntran = (case Ntran of None \<Rightarrow> Inr N | Some Nt \<Rightarrow> np_add N Nt)"

text \<open>
  The first part of the loop body: the system handed to the solver.  When no strategy is
  enabled, no branch assigns and the variables keep what they held.
\<close>

definition system_to_pass ::
    "mat \<Rightarrow> vec \<Rightarrow> circuit \<Rightarrow> vec option \<Rightarrow> mat option \<Rightarrow> solve_state
     \<Rightarrow> error + mat option \<times> vec option" where
  "system_to_pass mna Ndc circ Ntran Gmin s =
     (if enabled (standard_solving s) then
        ebind (add_Gmin mna Gmin) (\<lambda>M.
        ebind (add_Ntran Ndc Ntran) (\<lambda>N. Inr (Some M, Some N)))
      else if enabled (gmin_stepping s) then
        ebind (py_list_get (factors (gmin_stepping s)) (index (gmin_stepping s))) (\<lambda>e.
        ebind (build_gmin_matrix circ (py_pow10 e) (length mna)) (\<lambda>G.
        ebind (mat_add G mna) (\<lambda>M.
        ebind (add_Ntran Ndc Ntran) (\<lambda>N. Inr (Some M, Some N)))))
      else if enabled (source_stepping s) then
        ebind (py_list_get (factors (source_stepping s)) (index (source_stepping s))) (\<lambda>f.
        ebind (add_Gmin mna Gmin) (\<lambda>M.
        ebind (add_Ntran (np_scale f Ndc) Ntran) (\<lambda>N. Inr (Some M, Some N))))
      else Inr (st_mna_to_pass s, st_N_to_pass s))"

text \<open>
  The last part of the loop body, after the solver call has set \<open>converged\<close>: the result
  \<open>(x, error, converged, tot_iterations)\<close> when the loop is left, or the state of the next
  pass.  With \<open>verbose = 6\<close> the source loops over \<open>convergence_by_node\<close> to print; the list
  \<open>mdn_solver\<close> returns is always empty, so only the unbound variable matters.
\<close>

definition after_solve ::
    "options \<Rightarrow> int \<Rightarrow> bool \<Rightarrow> solve_state
     \<Rightarrow> error + ((vec option \<times> vec option \<times> bool \<times> int) + solve_state)" where
  "after_solve opts verbose converged s =
     (if \<not> converged then
        if verbose = 6 \<and> st_convergence_by_node s = None
        then Inl (NameError ''convergence_by_node'')
        else if more_solve_methods_available opts (standard_solving s) (gmin_stepping s)
                  (source_stepping s)
        then (case set_next_solve_method opts (standard_solving s) (gmin_stepping s)
                     (source_stepping s) of
                (st, gm, so) \<Rightarrow>
                  Inr (Inr (s\<lparr>standard_solving := st, gmin_stepping := gm,
                              source_stepping := so\<rparr>)))
        else Inr (Inl (None, None, False, st_tot_iterations s))
      else if enabled (source_stepping s) \<and> index (source_stepping s) \<noteq> 9
      then Inr (Inr (s\<lparr>source_stepping :=
                         (source_stepping s)\<lparr>index := index (source_stepping s) + 1\<rparr>\<rparr>))
      else if enabled (gmin_stepping s) \<and> index (gmin_stepping s) \<noteq> 9
      then Inr (Inr (s\<lparr>gmin_stepping :=
                         (gmin_stepping s)\<lparr>index := index (gmin_stepping s) + 1\<rparr>\<rparr>))
      else Inr (Inl (Some (st_x s), st_error s, True, st_tot_iterations s)))"

text \<open>
  One pass of \<open>while(not converged)\<close>.  \<open>LinAlgError\<close> and \<open>OverflowError\<close> of the solver
  are caught and leave \<open>x\<close> as it was; every other exception propagates.
\<close>

definition dc_solve_body ::
    "options \<Rightarrow> mat \<Rightarrow> vec \<Rightarrow> circuit \<Rightarrow> vec option \<Rightarrow> mat option \<Rightarrow> real option \<Rightarrow> int
     \<Rightarrow> (nat \<times> nat) list \<Rightarrow> int \<Rightarrow> solve_state
     \<Rightarrow> error + ((vec option \<times> vec option \<times> bool \<times> int) + solve_state)" where
  "dc_solve_body opts mna Ndc circ Ntran Gmin time MAXIT locked_nodes verbose s =
     ebind (system_to_pass mna Ndc circ Ntran Gmin s) (\<lambda>(mna_to_pass, N_to_pass).
       case mna_to_pass of
         None \<Rightarrow> Inl (NameError ''mna_to_pass'')
       | Some M \<Rightarrow>
           (case N_to_pass of
              None \<Rightarrow> Inl (NameError ''N_to_pass'')
            | Some N \<Rightarrow>
                let s = s\<lparr>st_mna_to_pass := Some M, st_N_to_pass := Some N\<rparr> in
                (case mdn_solver opts (Some (st_x s)) M circ (Some N) MAXIT
                        (int (length (nodes_dict circ))) locked_nodes time (verbose = 6) of
                   Inr (x, err, converged, n_iter, convergence_by_node) \<Rightarrow>
                     after_solve opts verbose converged
                       (s\<lparr>st_x := x, st_error := Some err,
                          st_convergence_by_node := Some convergence_by_node,
                          st_tot_iterations := st_tot_iterations s + n_iter\<rparr>)
                 | Inl LinAlgError \<Rightarrow> after_solve opts verbose False s
                 | Inl OverflowError \<Rightarrow> after_solve opts verbose False s
                 | Inl e \<Rightarrow> Inl e)))"

text \<open>
  The loop itself.  The result is \<open>None\<close> when the loop does not end, \<open>Some (Inl e)\<close> when
  exception \<open>e\<close> leaves \<open>dc_solve\<close>, and \<open>Some (Inr r)\<close> when \<open>dc_solve\<close> returns \<open>r\<close>.
\<close>

partial_function (option) dc_solve_while ::
    "options \<Rightarrow> mat \<Rightarrow> vec \<Rightarrow> circuit \<Rightarrow> vec option \<Rightarrow> mat option \<Rightarrow> real option \<Rightarrow> int
     \<Rightarrow> (nat \<times> nat) list \<Rightarrow> int \<Rightarrow> solve_state
     \<Rightarrow> (error + vec option \<times> vec option \<times> bool \<times> int) option" where
  "dc_solve_while opts mna Ndc circ Ntran Gmin time MAXIT locked_nodes verbose s =
     (case dc_solve_body opts mna Ndc circ Ntran Gmin time MAXIT locked_nodes verbose s of
        Inl e \<Rightarrow> Some (Inl e)
      | Inr (Inl r) \<Rightarrow> Some (Inr r)
      | Inr (Inr s') \<Rightarrow>
          dc_solve_while opts mna Ndc circ Ntran Gmin time MAXIT locked_nodes verbose s')"

text \<open>The time-variant sources folded into \<open>Tt\<close>, with the counter \<open>v_eq\<close>.\<close>

fun Tt_loop :: "real option \<Rightarrow> int \<Rightarrow> element list \<Rightarrow> int \<Rightarrow> vec \<Rightarrow> error + vec" where
  "Tt_loop time nv [] v_eq Tt = Inr Tt"
| "Tt_loop time nv (elem # rest) v_eq Tt =
     ebind (if (elem_class elem = Vsource \<or> elem_class elem = Isource) \<and> is_timedependent elem
            then
              if elem_class elem = Vsource
              then vset Tt (nv - 1 + v_eq) (- 1 * elem_V elem time)
              else
                ebind (if elem_n1 elem \<noteq> 0
                       then vec_add_at Tt (int (elem_n1 elem) - 1) (elem_I elem time)
                       else Inr Tt) (\<lambda>Tt.
                  if elem_n2 elem \<noteq> 0
                  then vec_add_at Tt (int (elem_n2 elem) - 1) (- elem_I elem time)
                  else Inr Tt)
            else Inr Tt) (\<lambda>Tt.
       Tt_loop time nv rest (if is_elem_voltage_defined elem then v_eq + 1 else v_eq) Tt)"

text \<open>
  \<open>dc_solve(mna, Ndc, circ, Ntran, Gmin, x0, time, MAXIT, locked_nodes, skip_Tt, verbose)\<close>.
\<close>

definition dc_solve ::
    "options \<Rightarrow> mat \<Rightarrow> vec \<Rightarrow> circuit \<Rightarrow> vec option \<Rightarrow> mat option \<Rightarrow> vec option \<Rightarrow> real option
     \<Rightarrow> int option \<Rightarrow> (nat \<times> nat) list option \<Rightarrow> bool \<Rightarrow> int
     \<Rightarrow> (error + vec option \<times> vec option \<times> bool \<times> int) option" where
  "dc_solve opts mna Ndc circ Ntran Gmin x0 time MAXIT locked_nodes skip_Tt verbose =
     (let MAXIT = (case MAXIT of None \<Rightarrow> dc_max_nr_iter opts | Some m \<Rightarrow> m);
          locked_nodes = (case locked_nodes of None \<Rightarrow> get_locked_nodes circ | Some l \<Rightarrow> l);
          mna_size = length mna;
          nv = int (length (nodes_dict circ))
      in case (if \<not> skip_Tt then Tt_loop time nv (elements circ) 0 (zeros mna_size)
               else Inr (zeros mna_size)) of
           Inl e \<Rightarrow> Some (Inl e)
         | Inr Tt \<Rightarrow>
             (case np_add Ndc Tt of
                Inl e \<Rightarrow> Some (Inl e)
              | Inr Ndc \<Rightarrow>
                  let x = (case x0 of None \<Rightarrow> zeros mna_size | Some x0 \<Rightarrow> x0) in
                  (case get_solve_methods opts of
                     Inl e \<Rightarrow> Some (Inl e)
                   | Inr (st0, gm0, so0) \<Rightarrow>
                       (case set_next_solve_method opts st0 gm0 so0 of
                          (st, gm, so) \<Rightarrow>
                            dc_solve_while opts mna Ndc circ Ntran Gmin time MAXIT locked_nodes
                              verbose
                              \<lparr>st_x = x, st_error = None, st_tot_iterations = 0,
                               st_convergence_by_node = None, st_mna_to_pass = None,
                               st_N_to_pass = None, standard_solving = st, gmin_stepping = gm,
                               source_stepping = so\<rparr>))))"

subsection \<open>Initial conditions: \<open>build_x0_from_user_supplied_ic\<close> and \<open>modify_x0_for_ic\<close>\<close>

text \<open>
  ASCII character classes of Python's \<open>re\<close>: \<open>\s\<close> is space, tab, newline, carriage
  return, form feed and vertical tab; \<open>\w\<close> is a letter, a digit or the underscore.
  \<open>str.lower\<close> and \<open>str.upper\<close> on ASCII.
\<close>

definition is_space :: "char \<Rightarrow> bool" where
  "is_space c = (c = CHR '' '' \<or> c = CHR 0x09 \<or> c = CHR 0x0A \<or> c = CHR 0x0D \<or> c = CHR 0x0C
                 \<or> c = CHR 0x0B)"

definition is_word :: "char \<Rightarrow> bool" where
  "is_word c =
     (let n = (of_char c :: nat)
      in (48 \<le> n \<and> n \<le> 57) \<or> (65 \<le> n \<and> n \<le> 90) \<or> (97 \<le> n \<and> n \<le> 122) \<or> n = 95)"

definition char_lower :: "char \<Rightarrow> char" where
  "char_lower c =
     (let n = (of_char c :: nat) in if 65 \<le> n \<and> n \<le> 90 then char_of (n + 32) else c)"

definition char_upper :: "char \<Rightarrow> char" where
  "char_upper c =
     (let n = (of_char c :: nat) in if 97 \<le> n \<and> n \<le> 122 then char_of (n - 32) else c)"

text \<open>
  The regular expressions \<open>V\s*\(\s*(\w?)\s*\)\<close> and \<open>I\s*\(\s*(\w?)\s*\)\<close>, compiled with
  \<open>IGNORECASE\<close>: \<open>match_label_at letter s\<close> is group 1 of a match that starts at the first
  character of \<open>s\<close>.  The group \<open>\w?\<close> takes at most one character.  The classes \<open>\s\<close>,
  \<open>\w\<close> and the two parentheses are disjoint, so the greedy match is the only candidate
  and no backtracking is needed.  \<open>label_search\<close> is \<open>regex.search\<close>, which is also what
  \<open>regex.findall(label)[0]\<close> returns when there is a match: the leftmost one.
\<close>

definition match_label_at :: "char \<Rightarrow> string \<Rightarrow> string option" where
  "match_label_at letter s =
     (case s of
        [] \<Rightarrow> None
      | c # r0 \<Rightarrow>
          if char_lower c \<noteq> char_lower letter then None
          else
            (case dropWhile is_space r0 of
               [] \<Rightarrow> None
             | p # r1 \<Rightarrow>
                 if p \<noteq> CHR ''('' then None
                 else
                   let r2 = dropWhile is_space r1;
                       grp = (case r2 of [] \<Rightarrow> [] | w # r \<Rightarrow> if is_word w then [w] else []);
                       r3 = drop (length grp) r2
                   in (case dropWhile is_space r3 of
                         [] \<Rightarrow> None
                       | q # r4 \<Rightarrow> if q = CHR '')'' then Some grp else None)))"

fun label_search :: "char \<Rightarrow> string \<Rightarrow> string option" where
  "label_search letter [] = None"
| "label_search letter (c # cs) =
     (case match_label_at letter (c # cs) of
        Some grp \<Rightarrow> Some grp
      | None \<Rightarrow> label_search letter cs)"

text \<open>
  Modelled from the spec: \<open>circ.ext_node_to_int\<close> of the module \<open>circuit\<close>, which is not
  among the sources.  \<open>nodes_dict\<close> maps internal node numbers to external labels; the
  helper is the reverse lookup and raises when no node has the label.
\<close>

fun ext_node_to_int :: "(nat \<times> string) list \<Rightarrow> string \<Rightarrow> error + nat" where
  "ext_node_to_int [] ext_node = Inl (Exception ''Node not found in the circuit'')"
| "ext_node_to_int ((k, label) # rest) ext_node =
     (if label = ext_node then Inr k else ext_node_to_int rest ext_node)"

text \<open>\<open>list.index\<close>: the first position of a value, \<open>ValueError\<close> when it is absent.\<close>

fun list_index :: "'a list \<Rightarrow> 'a \<Rightarrow> error + nat" where
  "list_index [] a = Inl (ValueError ''x not in list'')"
| "list_index (b # bs) a =
     (if b = a then Inr 0 else ebind (list_index bs a) (\<lambda>k. Inr (Suc k)))"

text \<open>The loop over \<open>icdict.iteritems()\<close>, the dictionary given as its list of items.\<close>

fun ic_items_loop ::
    "circuit \<Rightarrow> int \<Rightarrow> string list \<Rightarrow> (string \<times> real) list \<Rightarrow> vec \<Rightarrow> error + vec" where
  "ic_items_loop circ nv names [] x0 = Inr x0"
| "ic_items_loop circ nv names ((label, val) # rest) x0 =
     (case label_search (CHR ''V'') label of
        Some ext_node \<Rightarrow>
          ebind (ext_node_to_int (nodes_dict circ) ext_node) (\<lambda>int_node.
          ebind (vset x0 (int int_node) val) (ic_items_loop circ nv names rest))
      | None \<Rightarrow>
          (case label_search (CHR ''I'') label of
             Some element_name \<Rightarrow>
               ebind (list_index names element_name) (\<lambda>k.
               ebind (vset x0 (nv + int k) val) (ic_items_loop circ nv names rest))
           | None \<Rightarrow> Inl (ValueError (''Unrecognized label '' @ label))))"

definition build_x0_from_user_supplied_ic ::
    "circuit \<Rightarrow> (string \<times> real) list \<Rightarrow> error + vec" where
  "build_x0_from_user_supplied_ic circ icdict =
     (let nv = length (nodes_dict circ);
          voltage_defined_elem_names =
            map (map char_lower)
              (map (\<lambda>elem. letter_id elem @ descr elem)
                 (filter is_elem_voltage_defined (elements circ)));
          ni = length voltage_defined_elem_names
      in ebind (ic_items_loop circ (int nv) voltage_defined_elem_names icdict (zeros (nv + ni)))
           (\<lambda>x0. Inr (drop 1 x0)))"

text \<open>
  \<open>modify_x0_for_ic\<close>.  The attribute \<open>ic\<close> is true in a condition when it is a number
  other than zero.  The first loop runs over all elements, the second over the
  voltage-defined ones; \<open>x0\<close> is modified in place and returned.  (Elements are compared
  by their attributes, which tell them apart: identifiers are unique in a circuit.)
\<close>

definition ic_true :: "element \<Rightarrow> bool" where
  "ic_true elem = (case ic elem of None \<Rightarrow> False | Some v \<Rightarrow> v \<noteq> 0)"

fun ic_voltages_loop :: "element list \<Rightarrow> vec \<Rightarrow> error + vec" where
  "ic_voltages_loop [] x0 = Inr x0"
| "ic_voltages_loop (elem # rest) x0 =
     (if (elem_class elem = Capacitor \<and> ic_true elem) \<or> (elem_class elem = Diode \<and> ic_true elem)
      then
        ebind (vget x0 (int (elem_n2 elem) - 1)) (\<lambda>v2.
        ebind (vset x0 (int (elem_n1 elem) - 1) (v2 + the (ic elem))) (ic_voltages_loop rest))
      else ic_voltages_loop rest x0)"

fun ic_currents_loop :: "int \<Rightarrow> element list \<Rightarrow> element list \<Rightarrow> vec \<Rightarrow> error + vec" where
  "ic_currents_loop nv voltage_defined_elements [] x0 = Inr x0"
| "ic_currents_loop nv voltage_defined_elements (elem # rest) x0 =
     (if elem_class elem = Inductor \<and> ic_true elem
      then
        ebind (list_index voltage_defined_elements elem) (\<lambda>k.
        ebind (vset x0 (nv - 1 + int k) (the (ic elem)))
          (ic_currents_loop nv voltage_defined_elements rest))
      else ic_currents_loop nv voltage_defined_elements rest x0)"

definition modify_x0_for_ic :: "circuit \<Rightarrow> vec \<Rightarrow> error + vec" where
  "modify_x0_for_ic circ x0 =
     (let nv = int (length (nodes_dict circ));
          voltage_defined_elements = filter is_elem_voltage_defined (elements circ)
      in ebind (ic_voltages_loop (elements circ) x0)
           (ic_currents_loop nv voltage_defined_elements voltage_defined_elements))"

subsection \<open>The DC sweep: \<open>dc_analysis\<close>\<close>

text \<open>
  What \<open>dc_analysis\<close> calls and this development takes as given: the two iterators of the
  module \<open>utilities\<close> (not among the sources), as the list of values they yield for
  \<open>(max, min, nsteps)\<close>, and \<open>op_analysis(circ, x0, guess)\<close>, which rests on the modules
  \<open>utilities\<close>, \<open>dc_guess\<close> and \<open>results\<close> (not among the sources) and returns an operating
  point, \<open>None\<close> when the circuit could not be solved, or raises.
\<close>

record 'x collaborators =
  lin_axis_iterator :: "real \<Rightarrow> real \<Rightarrow> real \<Rightarrow> real list"
  log_axis_iterator :: "real \<Rightarrow> real \<Rightarrow> real \<Rightarrow> real list"
  op_analysis :: "circuit \<Rightarrow> 'x option \<Rightarrow> bool \<Rightarrow> error + 'x option"

text \<open>The search for the swept source: the position of the first element that fits.\<close>

fun find_source :: "element list \<Rightarrow> string \<Rightarrow> string \<Rightarrow> nat \<Rightarrow> nat option" where
  "find_source [] elem_type elem_descr k = None"
| "find_source (elem # rest) elem_type elem_descr k =
     (if descr elem = elem_descr
         \<and> ((elem_type = ''v'' \<and> elem_class elem = Vsource)
            \<or> (elem_type = ''i'' \<and> elem_class elem = Isource))
      then Some k
      else find_source rest elem_type elem_descr (Suc k))"

text \<open>Reading and writing the DC value of the source at position \<open>k\<close> of \<open>circ.elements\<close>.\<close>

definition source_value :: "circuit \<Rightarrow> nat \<Rightarrow> real" where
  "source_value circ k =
     (if elem_class (elements circ ! k) = Vsource then vdc (elements circ ! k)
      else idc (elements circ ! k))"

definition set_source_value :: "circuit \<Rightarrow> nat \<Rightarrow> real \<Rightarrow> circuit" where
  "set_source_value circ k v =
     circ\<lparr>elements := (elements circ)[k :=
       (if elem_class (elements circ ! k) = Vsource
        then (elements circ ! k)\<lparr>vdc := v\<rparr>
        else (elements circ ! k)\<lparr>idc := v\<rparr>)]\<rparr>"

text \<open>
  The loop over the sweep values.  The circuit is part of the state, since the loop writes
  the source's DC value into it; \<open>solved\<close> is unbound (\<open>None\<close>) until a point has been
  solved or has failed without skipping.  An exception of \<open>op_analysis\<close> leaves the loop
  and the function at once, with the circuit as it is then.
\<close>

fun sweep_loop ::
    "'x collaborators \<Rightarrow> options \<Rightarrow> nat \<Rightarrow> bool \<Rightarrow> real list \<Rightarrow> circuit \<Rightarrow> 'x option
     \<Rightarrow> (real \<times> 'x) list \<Rightarrow> bool option
     \<Rightarrow> circuit \<times> (error + (real \<times> 'x) list \<times> bool option)" where
  "sweep_loop env opts k guess [] circ x sol solved = (circ, Inr (sol, solved))"
| "sweep_loop env opts k guess (sweep_value # rest) circ x sol solved =
     (let circ = set_source_value circ k sweep_value in
      case op_analysis env circ x guess of
        Inl e \<Rightarrow> (circ, Inl e)
      | Inr None \<Rightarrow>
          if \<not> dc_sweep_skip_allowed opts then (circ, Inr (sol, Some False))
          else sweep_loop env opts k guess rest circ None sol solved
      | Inr (Some x') \<Rightarrow>
          sweep_loop env opts k guess rest circ (Some x') (sol @ [(sweep_value, x')]) (Some True))"

text \<open>
  \<open>dc_analysis(circ, start, stop, step, source, sweep_type, guess, x0)\<close>: the circuit as
  the call leaves it, and the exception it raises or the value it returns (the list of
  solved points of the \<open>dc_solution\<close>, or \<open>None\<close>).  Printing is left out.
\<close>

definition dc_analysis ::
    "'x collaborators \<Rightarrow> options \<Rightarrow> circuit \<Rightarrow> real \<Rightarrow> real \<Rightarrow> real \<Rightarrow> string \<Rightarrow> string \<Rightarrow> bool
     \<Rightarrow> 'x option \<Rightarrow> circuit \<times> (error + (real \<times> 'x) list option)" where
  "dc_analysis env opts circ start stop step source sweep_type guess x0 =
     (case source of
        [] \<Rightarrow> (circ, Inl IndexError)
      | c # elem_descr \<Rightarrow>
          let elem_type = [char_lower c] in
          if sweep_type = dc_log_step opts \<and> stop - start < 0 then (circ, Inl (SystemExit 1))
          else if (stop - start) * step < 0
          then (circ, Inl (ValueError ''Unbonded stepping in DC analysis.''))
          else if step = 0 then (circ, Inl ZeroDivisionError)
          else
            let points = (stop - start) / step + 1;
                sweep_type = take 3 (map char_upper sweep_type)
            in
            (case (if sweep_type = dc_log_step opts
                   then Some (log_axis_iterator env stop start points)
                   else if sweep_type = dc_lin_step opts
                   then Some (lin_axis_iterator env stop start points)
                   else None) of
               None \<Rightarrow> (circ, Inl (SystemExit 1))
             | Some dc_iter \<Rightarrow>
                 if elem_type \<noteq> ''v'' \<and> elem_type \<noteq> ''i'' then (circ, Inl (SystemExit 1))
                 else
                   (case find_source (elements circ) elem_type elem_descr 0 of
                      None \<Rightarrow> (circ, Inl (SystemExit 1))
                    | Some k \<Rightarrow>
                        let initial_value = source_value circ k in
                        (case sweep_loop env opts k guess dc_iter circ x0 [] None of
                           (circ', Inl e) \<Rightarrow> (circ', Inl e)
                         | (circ', Inr (sol, solved)) \<Rightarrow>
                             (case solved of
                                None \<Rightarrow> (circ', Inl (NameError ''solved''))
                              | Some solved \<Rightarrow>
                                  (set_source_value circ' k initial_value,
                                   Inr (if solved then Some sol else None)))))))"

subsection \<open>Example configuration and circuits\<close>

text \<open>
  A configuration with all three solving strategies on, no damping of the first iterations
  and the lock of nonlinear voltages on; tolerances \<open>ver = ier = 1e-3\<close>, \<open>vea = 1e-6\<close>,
  \<open>iea = 1e-9\<close>; \<open>gmin = 1e-12\<close>; a thermal voltage of 26 mV.
\<close>

definition example_options :: options where
  "example_options =
     \<lparr>gmin = 1 / 10 ^ 12, dc_max_nr_iter = 10000, dc_use_guess = True,
      dc_sweep_skip_allowed = True, use_standard_solve_method = True,
      use_gmin_stepping = True, use_source_stepping = True, nr_damp_first_iters = False,
      nl_voltages_lock = True, nl_voltages_lock_factor = 4, ver = 1 / 1000,
      vea = 1 / 10 ^ 6, ier = 1 / 1000, iea = 1 / 10 ^ 9, dc_lin_step = ''LIN'',
      dc_log_step = ''LOG'', Vth = 26 / 1000\<rparr>"

text \<open>A linear two-terminal element of a given class, name and pair of nodes.\<close>

definition linear_element :: "elem_class \<Rightarrow> string \<Rightarrow> string \<Rightarrow> nat \<Rightarrow> nat \<Rightarrow> element" where
  "linear_element cls letter name a b =
     \<lparr>elem_class = cls, letter_id = letter, descr = name, elem_n1 = a, elem_n2 = b,
      is_nonlinear = False, is_timedependent = False, vdc = 0, idc = 0, ic = None,
      elem_V = (\<lambda>t. 0), elem_I = (\<lambda>t. 0), get_output_ports = [],
      get_drive_ports = (\<lambda>k. []), elem_i = (\<lambda>k v t. Inr 0), elem_g = (\<lambda>k v j t. Inr 0)\<rparr>"

text \<open>
  The resistive divider of scenario S1 of the specification: R1 = 1 kOhm from node 1 to
  node 2, R2 = 1 kOhm from node 2 to ground, V1 = 1 V from node 1 to ground; its reduced
  MNA matrix and constant term, for the unknowns \<open>v(1), v(2), i(V1)\<close>.
\<close>

definition divider :: circuit where
  "divider =
     \<lparr>nodes_dict = [(0, ''0''), (1, ''1''), (2, ''2'')],
      elements = [linear_element Resistor ''R'' ''1'' 1 2,
                  linear_element Resistor ''R'' ''2'' 2 0,
                  (linear_element Vsource ''V'' ''1'' 1 0)\<lparr>vdc := 1\<rparr>]\<rparr>"

definition divider_mna :: mat where
  "divider_mna = [[1 / 1000, - 1 / 1000, 1], [- 1 / 1000, 2 / 1000, 0], [1, 0, 0]]"

definition divider_N :: vec where
  "divider_N = [0, 0, - 1]"

subsection \<open>Statements of the specification\<close>

text \<open>
  The block test as the specification words it, entry by entry: the step is compared with
  the relative tolerance times \<open>|x[i]|\<close>.
\<close>

definition block_passes_claimed :: "real \<Rightarrow> real \<Rightarrow> real \<Rightarrow> vec \<Rightarrow> vec \<Rightarrow> vec \<Rightarrow> bool" where
  "block_passes_claimed e_r e_a e_residual x dx residual =
     list_all (\<lambda>k. \<bar>dx ! k\<bar> \<le> e_r * \<bar>x ! k\<bar> + e_a \<and> \<bar>residual ! k\<bar> \<le> e_residual)
       [0..<length x]"

text \<open>
  The block test \<open>numpy.allclose(x, x+dx, rtol=e_r, atol=e_a)\<close> amounts to: the relative
  tolerance multiplies \<open>|x[i] + dx[i]|\<close>.
\<close>

definition block_passes :: "real \<Rightarrow> real \<Rightarrow> real \<Rightarrow> vec \<Rightarrow> vec \<Rightarrow> vec \<Rightarrow> bool" where
  "block_passes e_r e_a e_residual x dx residual =
     list_all (\<lambda>k. \<bar>dx ! k\<bar> \<le> e_r * \<bar>x ! k + dx ! k\<bar> + e_a \<and> \<bar>residual ! k\<bar> \<le> e_residual)
       [0..<length x]"

text \<open>The exception of \<open>dc_analysis\<close> that the specification calls UnboundedStepping.\<close>

abbreviation UnboundedStepping :: error where
  "UnboundedStepping \<equiv> ValueError ''Unbonded stepping in DC analysis.''"

subsection \<open>Example collaborators of the sweep\<close>

text \<open>
  Modelled from the spec: the iterators of the module \<open>utilities\<close>, which is not among the
  sources.  The linear one yields \<open>start + k*step\<close>, the logarithmic one
  \<open>10^(log10(start) + k*D)\<close> with \<open>D = (log10(stop) - log10(start))/(points - 1)\<close>, for
  \<open>k\<close> below the number of points; they are called with \<open>(stop, start, points)\<close>.
\<close>

definition spec_lin_axis_iterator :: "real \<Rightarrow> real \<Rightarrow> real \<Rightarrow> real list" where
  "spec_lin_axis_iterator mx mn nsteps =
     map (\<lambda>k. mn + real k * (if nsteps = 1 then 0 else (mx - mn) / (nsteps - 1)))
       [0..<nat \<lfloor>nsteps\<rfloor>]"

definition spec_log_axis_iterator :: "real \<Rightarrow> real \<Rightarrow> real \<Rightarrow> real list" where
  "spec_log_axis_iterator mx mn nsteps =
     map (\<lambda>k. 10 powr (log 10 mn + real k * ((log 10 mx - log 10 mn) / (nsteps - 1))))
       [0..<nat \<lfloor>nsteps\<rfloor>]"

text \<open>
  Three behaviours of \<open>op_analysis\<close> on every point of a sweep: the circuit cannot be
  solved (\<open>None\<close>); the solve raises (the size exception of \<open>mdn_solver\<close>, which neither
  \<open>dc_solve\<close> nor \<open>op_analysis\<close> catches); the solve succeeds.
\<close>

definition sweep_with ::
    "(circuit \<Rightarrow> vec option \<Rightarrow> bool \<Rightarrow> error + vec option) \<Rightarrow> vec collaborators" where
  "sweep_with op =
     \<lparr>lin_axis_iterator = spec_lin_axis_iterator, log_axis_iterator = spec_log_axis_iterator,
      op_analysis = op\<rparr>"

definition never_solves :: "vec collaborators" where
  "never_solves = sweep_with (\<lambda>circ x0 guess. Inr None)"

definition solve_raises :: "vec collaborators" where
  "solve_raises =
     sweep_with (\<lambda>circ x0 guess. Inl (Exception ''x0s size is different from expected''))"

definition always_solves :: "vec collaborators" where
  "always_solves = sweep_with (\<lambda>circ x0 guess. Inr (Some []))"

subsection \<open>Further example circuits\<close>

text \<open>The divider with the node labels \<open>in\<close> and \<open>out\<close>.\<close>

definition labelled_divider :: circuit where
  "labelled_divider = divider\<lparr>nodes_dict := [(0, ''0''), (1, ''in''), (2, ''out'')]\<rparr>"

text \<open>
  A capacitor C1 from node 1 to ground with initial condition 2 V, beside a source V1;
  the unknowns are \<open>v(1), i(V1)\<close>.
\<close>

definition grounded_capacitor :: circuit where
  "grounded_capacitor =
     \<lparr>nodes_dict = [(0, ''0''), (1, ''1'')],
      elements = [(linear_element Capacitor ''C'' ''1'' 1 0)\<lparr>ic := Some 2\<rparr>,
                  (linear_element Vsource ''V'' ''1'' 1 0)\<lparr>vdc := 5\<rparr>]\<rparr>"

subsection \<open>The damping coefficient as the specification states it\<close>

text \<open>
  The entry of \<open>dx\<close> for node \<open>n\<close>, ground treated as 0; the guard \<open>td1\<close> of the first
  iterations; the guard \<open>td2\<close> of the locked nodes, the minimum over the locked pairs whose
  voltage step exceeds \<open>nl_voltages_lock_factor * Vth\<close> of that limit over the step (1 when
  there is none); and their minimum.
\<close>

definition node_step :: "vec \<Rightarrow> nat \<Rightarrow> real" where
  "node_step dx n = (if n = 0 then 0 else dx ! (n - 1))"

definition td1 :: "options \<Rightarrow> int \<Rightarrow> real" where
  "td1 opts n =
     (if nr_damp_first_iters opts \<and> 0 \<le> n
      then (if n < 10 then 1 / 100 else if n < 20 then 1 / 10 else 1)
      else 1)"

definition lock_step :: "options \<Rightarrow> vec \<Rightarrow> nat \<times> nat \<Rightarrow> real \<Rightarrow> real" where
  "lock_step opts dx pair m =
     (let d = \<bar>node_step dx (fst pair) - node_step dx (snd pair)\<bar>;
          lim = nl_voltages_lock_factor opts * Vth opts
      in if d > lim then min m (lim / d) else m)"

definition td2 :: "options \<Rightarrow> vec \<Rightarrow> (nat \<times> nat) list \<Rightarrow> real" where
  "td2 opts dx locked_nodes = fold (lock_step opts dx) locked_nodes 1"

definition get_td_claimed :: "options \<Rightarrow> vec \<Rightarrow> (nat \<times> nat) list \<Rightarrow> int \<Rightarrow> real" where
  "get_td_claimed opts dx locked_nodes n = min (td1 opts n) (td2 opts dx locked_nodes)"

text \<open>A locked pair with a node that is not ground and both nodes among the entries of \<open>dx\<close>.\<close>

definition locked_pair_ok :: "vec \<Rightarrow> nat \<times> nat \<Rightarrow> bool" where
  "locked_pair_ok dx pair =
     ((fst pair \<noteq> 0 \<or> snd pair \<noteq> 0) \<and> fst pair \<le> length dx \<and> snd pair \<le> length dx)"

subsection \<open>Gmin stepping\<close>





definition source_only :: options where
  "source_only =
     example_options\<lparr>use_standard_solve_method := False, use_gmin_stepping := False\<rparr>"


section \<open>Properties\<close>

subsection \<open>The size check of \<open>mdn_solver\<close>\<close>



subsection \<open>A linear circuit under damping\<close>

lemma divider_inverse:
  "linalg_inv divider_mna = Inr [[0, 0, 1], [0, 500, 1 / 2], [1, 1 / 2, - 1 / 2000]]"
  by (simp add: divider_mna_def linalg_inv_def minor_def remove_nth_def
      upt_rec [of 0] upt_rec [of 1] upt_rec [of 2] upt_rec [of 3])

text \<open>
  Claim C1 says that on a linear circuit \<open>mdn_solver\<close> returns the direct linear solve
  after one iteration, for every configuration of the damping flags.  On the divider of
  scenario S1, with \<open>nr_damp_first_iters\<close> on, the first and only iteration is damped by
  \<open>get_td = 0.01\<close>: the solver returns one hundredth of the solution \<open>(1, 0.5, -0.0005)\<close>,
  with \<open>converged = True\<close> after one iteration, and \<open>mna*x + T\<close> is not zero there.
\<close>

theorem mdn_solver_linear_damped:
  "mdn_solver (example_options\<lparr>nr_damp_first_iters := True\<rparr>) (Some [0, 0, 0]) divider_mna
     divider (Some divider_N) 10000 3 [] None False
     = Inr ([1 / 100, 1 / 200, - 1 / 200000], [0, 0, - 1], True, 1, [])
   \<and> ebind (mat_vec divider_mna [1 / 100, 1 / 200, - 1 / 200000]) (\<lambda>v. np_add v divider_N)
       = Inr [0, 0, - 99 / 100]
   \<and> mdn_solver example_options (Some [0, 0, 0]) divider_mna divider (Some divider_N) 10000 3
       [] None False
     = Inr ([1, 1 / 2, - 1 / 2000], [0, 0, - 1], True, 1, [])"
proof -
  have nl: "\<not> circ_is_nonlinear divider"
    by (simp add: circ_is_nonlinear_def divider_def linear_element_def)
  have a: "mdn_solver (example_options\<lparr>nr_damp_first_iters := True\<rparr>) (Some [0, 0, 0])
     divider_mna divider (Some divider_N) 10000 3 [] None False
     = Inr ([1 / 100, 1 / 200, - 1 / 200000], [0, 0, - 1], True, 1, [])"
    apply (simp add: mdn_solver_def nl nr_iteration_def divider_inverse)
    apply (simp add: example_options_def divider_mna_def divider_N_def mat_vec_def np_add_def
        np_zip_def np_scale_def get_td_def)
    done
  have b: "ebind (mat_vec divider_mna [1 / 100, 1 / 200, - 1 / 200000])
       (\<lambda>v. np_add v divider_N) = Inr [0, 0, - 99 / 100]"
    by (simp add: divider_mna_def divider_N_def mat_vec_def np_add_def np_zip_def)
  have c: "mdn_solver example_options (Some [0, 0, 0]) divider_mna divider (Some divider_N)
     10000 3 [] None False
     = Inr ([1, 1 / 2, - 1 / 2000], [0, 0, - 1], True, 1, [])"
    apply (simp add: mdn_solver_def nl nr_iteration_def divider_inverse)
    apply (simp add: example_options_def divider_mna_def divider_N_def mat_vec_def np_add_def
        np_zip_def np_scale_def get_td_def)
    done
  from a b c show ?thesis by simp
qed

subsection \<open>The convergence check\<close>

lemma allclose_step:
  assumes "length dx = length x"
  shows "allclose x (map2 (+) x dx) er ea
           = Inr (\<forall>k<length x. \<bar>dx ! k\<bar> \<le> er * \<bar>x ! k + dx ! k\<bar> + ea)"
proof -
  have "list_all id (map2 (\<lambda>u v. \<bar>u - v\<bar> \<le> ea + er * \<bar>v\<bar>) x (map2 (+) x dx))
          = (\<forall>k<length x. \<bar>dx ! k\<bar> \<le> er * \<bar>x ! k + dx ! k\<bar> + ea)"
    using assms by (simp add: list_all_length add.commute)
  then show ?thesis
    using assms by (simp add: allclose_def np_zip_def)
qed

lemma allclose_residual:
  "allclose residuum (zeros (length residuum)) 0 eres
     = Inr (\<forall>k<length residuum. \<bar>residuum ! k\<bar> \<le> eres)"
  by (simp add: allclose_def np_zip_def list_all_length zeros_def)

lemma block_passes_iff:
  "block_passes er ea eres x dx residuum
     = ((\<forall>k<length x. \<bar>dx ! k\<bar> \<le> er * \<bar>x ! k + dx ! k\<bar> + ea)
        \<and> (\<forall>k<length x. \<bar>residuum ! k\<bar> \<le> eres))"
  by (auto simp add: block_passes_def list_all_length)

lemma custom_check_normal:
  assumes "length dx = length x" "length residuum = length x"
  shows "custom_convergence_check x dx residuum er ea eres False
           = Inr (block_passes er ea eres x dx residuum, [])"
proof (cases "length x = 0")
  case True
  then show ?thesis by (simp add: custom_convergence_check_def block_passes_def)
next
  case False
  have add: "np_add x dx = Inr (map2 (+) x dx)"
    using assms by (simp add: np_add_def np_zip_def)
  have res: "allclose residuum (zeros (length residuum)) 0 eres
           = Inr (\<forall>k<length x. \<bar>residuum ! k\<bar> \<le> eres)"
    using allclose_residual [of residuum eres] assms(2) by simp
  show ?thesis
    unfolding custom_convergence_check_def block_passes_iff
    using False by (simp add: add allclose_step [OF assms(1)] res)
qed

text \<open>
  What \<open>convergence_check\<close> computes.  For \<open>x\<close>, \<open>dx\<close> and the residual of one length it
  returns the conjunction of the two block checks, the voltage block (the first
  \<open>nv_minus_one\<close> entries) with \<open>e_r = ver\<close>, \<open>e_a = vea\<close>, \<open>e_residual = iea\<close> and the
  current block (the other entries) with \<open>e_r = ier\<close>, \<open>e_a = iea\<close>, \<open>e_residual = vea\<close>,
  where a block passes iff every entry has \<open>|dx[i]| \<le> e_r*|x[i] + dx[i]| + e_a\<close> and
  \<open>|residual[i]| \<le> e_residual\<close>.  The \<open>debug\<close> argument changes nothing, and the list of
  per-variable results is empty.
\<close>

lemma convergence_check_normal_mode:
  assumes "length dx = length x" and "length residuum = length x"
  shows "convergence_check opts x dx residuum nv_minus_one debug
           = Inr (block_passes (ver opts) (vea opts) (iea opts)
                    (py_take nv_minus_one x) (py_take nv_minus_one dx)
                    (py_take nv_minus_one residuum)
                  \<and> block_passes (ier opts) (iea opts) (vea opts)
                      (py_drop nv_minus_one x) (py_drop nv_minus_one dx)
                      (py_drop nv_minus_one residuum), [])"
proof -
  have v: "voltage_convergence_check opts (py_take nv_minus_one x) (py_take nv_minus_one dx)
             (py_take nv_minus_one residuum) False
           = Inr (block_passes (ver opts) (vea opts) (iea opts)
                    (py_take nv_minus_one x) (py_take nv_minus_one dx)
                    (py_take nv_minus_one residuum), [])"
    unfolding voltage_convergence_check_def
    by (rule custom_check_normal) (simp_all add: assms py_take_def)
  have c: "current_convergence_check opts (py_drop nv_minus_one x) (py_drop nv_minus_one dx)
             (py_drop nv_minus_one residuum) False
           = Inr (block_passes (ier opts) (iea opts) (vea opts)
                    (py_drop nv_minus_one x) (py_drop nv_minus_one dx)
                    (py_drop nv_minus_one residuum), [])"
    unfolding current_convergence_check_def
    by (rule custom_check_normal) (simp_all add: assms py_drop_def)
  show ?thesis
    by (simp add: convergence_check_def v c)
qed

text \<open>
  Claim C5 says that a block passes iff every entry has \<open>|dx[i]| \<le> e_r*|x[i]| + e_a\<close> and
  \<open>|residual[i]| \<le> e_residual\<close>.  This is the test that the docstring of \<open>mdn_solver\<close>
  describes and that the debug branch of \<open>custom_convergence_check\<close> makes (with \<open><\<close>),
  both relative to \<open>|x[i]|\<close>.  The branch that \<open>convergence_check\<close> runs does not make
  it: for a one-entry voltage block with \<open>x = 0\<close>, \<open>dx = 1.001e-6\<close>, a zero residual and
  the tolerances \<open>ver = 1e-3\<close>, \<open>vea = 1e-6\<close>, \<open>iea = 1e-9\<close>, the check passes
  (\<open>1.001e-6 \<le> 1e-6 + 1e-3 * 1.001e-6\<close>), with \<open>debug\<close> off and with \<open>debug\<close> on, while
  the debug branch of the block check returns \<open>(False, [False])\<close> on the same block and
  the stated condition is false (\<open>1.001e-6 > 1e-6\<close>).
\<close>

theorem convergence_check_departs_from_debug_branch:
  "convergence_check example_options [0] [1001 / 10 ^ 9] [0] 1 False = Inr (True, [])
   \<and> convergence_check example_options [0] [1001 / 10 ^ 9] [0] 1 True = Inr (True, [])
   \<and> voltage_convergence_check example_options [0] [1001 / 10 ^ 9] [0] True
       = Inr (False, [False])
   \<and> \<not> block_passes_claimed (ver example_options) (vea example_options) (iea example_options)
         [0] [1001 / 10 ^ 9] [0]"
  by (simp add: convergence_check_def voltage_convergence_check_def
      current_convergence_check_def custom_convergence_check_def py_take_def py_drop_def
      np_add_def np_zip_def allclose_def zeros_def example_options_def block_passes_claimed_def
      vget_def py_index_def)

subsection \<open>The DC sweep\<close>

lemma sweep_chars:
  "char_upper (CHR ''L'') = CHR ''L''" "char_upper (CHR ''I'') = CHR ''I''"
  "char_upper (CHR ''N'') = CHR ''N''" "char_lower (CHR ''V'') = CHR ''v''"
  by code_simp+

lemma lin_values:
  "spec_lin_axis_iterator 3 2 2 = [2, 3]" "spec_lin_axis_iterator 0 0 1 = [0]"
  by (simp_all add: spec_lin_axis_iterator_def upt_rec)

text \<open>
  Claim C4 says that the swept source has its DC value of before the call on every exit
  path of \<open>dc_analysis\<close>.  The source V1 of the divider has \<open>vdc = 1\<close>; it is swept from 2
  to 3 in steps of 1.  When every point fails and skipping is allowed, \<open>solved\<close> is never
  assigned, \<open>if solved:\<close> raises before the clean-up, and V1 is left at 3.  When the solve
  of the first point raises, the exception leaves \<open>dc_analysis\<close> (it has no \<open>try\<close>) and V1
  is left at 2.
\<close>

theorem dc_analysis_source_not_restored:
  "source_value divider 2 = 1
   \<and> dc_analysis never_solves example_options divider 2 3 1 ''V1'' ''LIN'' True None
       = (set_source_value divider 2 3, Inl (NameError ''solved''))
   \<and> source_value (set_source_value divider 2 3) 2 = 3
   \<and> dc_analysis solve_raises example_options divider 2 3 1 ''V1'' ''LIN'' True (Some [0])
       = (set_source_value divider 2 2,
          Inl (Exception ''x0s size is different from expected''))
   \<and> source_value (set_source_value divider 2 2) 2 = 2"
  by (simp add: dc_analysis_def sweep_chars never_solves_def solve_raises_def sweep_with_def
      lin_values example_options_def divider_def linear_element_def
      source_value_def set_source_value_def)

text \<open>
  Claim C7, as stated: \<open>dc_analysis\<close> raises UnboundedStepping whenever
  \<open>(stop - start)*step \<le> 0\<close>, also for \<open>start = stop\<close>.  It fails on the code: with
  \<open>start = stop = 0\<close> and \<open>step = 1\<close> the product is 0, the check \<open>< 0\<close> lets the call
  through, and the sweep solves its one point and returns it.
\<close>

theorem dc_analysis_stepping_claim_counterexample:
  "(0 - 0) * 1 \<le> (0 :: real)
   \<and> snd (dc_analysis always_solves example_options divider 0 0 1 ''V1'' ''LIN'' True None)
       = Inr (Some [(0, [])])"
  by (simp add: dc_analysis_def sweep_chars always_solves_def sweep_with_def
      lin_values example_options_def divider_def linear_element_def
      source_value_def set_source_value_def)

text \<open>
  Claim C7, amended.  For a step that is not 0, a source name that is not empty and a
  sweep that is not a logarithmic one with \<open>stop < start\<close> (which exits first),
  \<open>dc_analysis\<close> raises UnboundedStepping with the circuit untouched, whatever the
  iterators and \<open>op_analysis\<close> would do (so before any point is solved), exactly when
  \<open>(stop - start)*step < 0\<close>; for \<open>(stop - start)*step \<ge> 0\<close>, \<open>start = stop\<close> included,
  the call gets past this check.
\<close>

theorem dc_analysis_stepping_check:
  fixes x0 :: "'x option"
  assumes "step \<noteq> 0" and "source \<noteq> []"
    and "\<not> (sweep_type = dc_log_step opts \<and> stop < start)"
  shows "(\<forall>env :: 'x collaborators.
            dc_analysis env opts circ start stop step source sweep_type guess x0
              = (circ, Inl UnboundedStepping))
         \<longleftrightarrow> (stop - start) * step < 0"
proof
  assume all: "\<forall>env :: 'x collaborators.
            dc_analysis env opts circ start stop step source sweep_type guess x0
              = (circ, Inl UnboundedStepping)"
  let ?env = "\<lparr>lin_axis_iterator = (\<lambda>a b c. []), log_axis_iterator = (\<lambda>a b c. []),
               op_analysis = (\<lambda>c x g. Inl IndexError)\<rparr> :: 'x collaborators"
  from all have e: "dc_analysis ?env opts circ start stop step source sweep_type guess x0
              = (circ, Inl UnboundedStepping)" by blast
  show "(stop - start) * step < 0"
  proof (rule ccontr)
    assume "\<not> (stop - start) * step < 0"
    with e assms show False
      by (auto simp add: dc_analysis_def Let_def split: list.splits if_splits option.splits)
  qed
next
  assume "(stop - start) * step < 0"
  with assms show "\<forall>env :: 'x collaborators.
            dc_analysis env opts circ start stop step source sweep_type guess x0
              = (circ, Inl UnboundedStepping)"
    by (auto simp add: dc_analysis_def Let_def split: list.splits)
qed

theorem dc_analysis_stepping_check_witness:
  "- 1 / 10 \<noteq> (0 :: real) \<and> ''V1'' \<noteq> []
   \<and> \<not> (''LIN'' = dc_log_step example_options \<and> (1 :: real) < 0)
   \<and> (1 - 0) * (- 1 / 10) < (0 :: real)
   \<and> (\<forall>env :: vec collaborators.
         dc_analysis env example_options divider 0 1 (- 1 / 10) ''V1'' ''LIN'' True None
           = (divider, Inl UnboundedStepping))"
  using dc_analysis_stepping_check [of "- 1 / 10" "''V1''" "''LIN''" example_options 1 0
      divider True "None :: vec option"]
  by (simp add: example_options_def)

text \<open>
  A step of 0 passes the check as well, and the division \<open>(stop - start)/step\<close> right
  after it raises \<open>ZeroDivisionError\<close>; the statement above leaves that case out.
\<close>

lemma dc_analysis_zero_step:
  assumes "source \<noteq> []" and "\<not> (sweep_type = dc_log_step opts \<and> stop < start)"
  shows "dc_analysis env opts circ start stop 0 source sweep_type guess x0
           = (circ, Inl ZeroDivisionError)"
  using assms by (auto simp add: dc_analysis_def Let_def split: list.splits)

subsection \<open>Initial conditions\<close>

lemma label_searches:
  "label_search (CHR ''V'') ''V(out)'' = None" "label_search (CHR ''I'') ''V(out)'' = None"
  "label_search (CHR ''V'') ''I(V1)'' = None" "label_search (CHR ''I'') ''I(V1)'' = None"
  "label_search (CHR ''V'') ''V(2)'' = Some ''2''"
  by code_simp+

text \<open>
  Claim C8 says that keys of the shapes \<open>V(node_label)\<close> and \<open>I(element_id)\<close> are accepted.
  The group of both regular expressions is \<open>\w?\<close>, a single optional character, so a label
  or identifier of two or more characters never matches: \<open>V(out)\<close>, for the node \<open>out\<close> of
  the circuit, and \<open>I(V1)\<close>, for its voltage source V1, are rejected as unrecognized labels
  (the docstring gives \<open>V(n1)\<close> and \<open>I(L1)\<close> as examples of keys).  A one-character label
  is accepted.
\<close>

theorem build_x0_rejects_documented_labels:
  "build_x0_from_user_supplied_ic labelled_divider [(''V(out)'', 1 / 2)]
     = Inl (ValueError ''Unrecognized label V(out)'')
   \<and> build_x0_from_user_supplied_ic divider [(''I(V1)'', - 1 / 2000)]
     = Inl (ValueError ''Unrecognized label I(V1)'')
   \<and> build_x0_from_user_supplied_ic divider [(''V(2)'', 1 / 2)] = Inr [0, 1 / 2, 0]"
  by (simp add: build_x0_from_user_supplied_ic_def labelled_divider_def divider_def
      linear_element_def is_elem_voltage_defined_def label_searches
      zeros_def vset_def py_index_def del: label_search.simps)

lemma ic_voltages_loop_append:
  "ic_voltages_loop (pre @ post) x0 = ebind (ic_voltages_loop pre x0) (ic_voltages_loop post)"
proof (induction pre arbitrary: x0)
  case Nil
  show ?case by simp
next
  case (Cons e pre)
  show ?case
    by (cases "vget x0 (int (elem_n2 e) - 1)";
        cases "vset x0 (int (elem_n1 e) - 1)
                 (projr (vget x0 (int (elem_n2 e) - 1)) + the (ic e))")
       (simp_all add: Cons.IH)
qed

lemma vset_length: "vset v k a = Inr w \<Longrightarrow> length w = length v"
  by (auto simp add: vset_def py_index_def split: if_splits)

lemma ic_voltages_loop_length:
  "ic_voltages_loop es x0 = Inr x1 \<Longrightarrow> length x1 = length x0"
proof (induction es arbitrary: x0)
  case Nil
  then show ?case by simp
next
  case (Cons e es)
  show ?case
  proof (cases "(elem_class e = Capacitor \<and> ic_true e) \<or> (elem_class e = Diode \<and> ic_true e)")
    case False
    with Cons show ?thesis by simp
  next
    case True
    with Cons.prems obtain v2 x' where
      "vget x0 (int (elem_n2 e) - 1) = Inr v2"
      "vset x0 (int (elem_n1 e) - 1) (v2 + the (ic e)) = Inr x'"
      "ic_voltages_loop es x' = Inr x1"
      by (cases "vget x0 (int (elem_n2 e) - 1)";
          cases "vset x0 (int (elem_n1 e) - 1)
                   (projr (vget x0 (int (elem_n2 e) - 1)) + the (ic e))")
         auto
    then show ?thesis
      using Cons.IH [of x'] vset_length by fastforce
  qed
qed

lemma ic_step_ground:
  assumes "elem_class elem = Capacitor \<or> elem_class elem = Diode"
    and "ic elem = Some v" and "v \<noteq> 0" and "elem_n2 elem = 0"
    and "0 < elem_n1 elem" and "elem_n1 elem \<le> length x1"
  shows "ic_voltages_loop (elem # post) x1
           = ic_voltages_loop post (x1[elem_n1 elem - 1 := last x1 + v])"
proof -
  from assms have ne: "x1 \<noteq> []" by auto
  then have "0 < length x1" by simp
  with ne have g: "vget x1 (- 1) = Inr (last x1)"
    by (simp add: vget_def py_index_def last_conv_nth nat_diff_distrib' int_ops Suc_le_eq)
  have s: "vset x1 (int (elem_n1 elem) - 1) (last x1 + v)
             = Inr (x1[elem_n1 elem - 1 := last x1 + v])"
    using assms(5,6) by (simp add: vset_def py_index_def nat_diff_distrib')
  show ?thesis
    using assms(1-4) by (auto simp add: ic_true_def g s)
qed

text \<open>
  Claim C10.  Let a capacitor or diode \<open>elem\<close> of the circuit carry an initial condition
  \<open>v \<noteq> 0\<close> and have \<open>n2 = 0\<close>, with \<open>n1\<close> a node of the vector.  When the first loop of
  \<open>modify_x0_for_ic\<close> reaches it, with \<open>x1\<close> the vector the elements before it have left,
  it assigns \<open>x1[n1 - 1] = x1[last] + v\<close>: the read of \<open>x0[n2 - 1]\<close> is a read at index
  \<open>-1\<close>, the final entry, and not the ground voltage 0.  The function then goes on with
  the remaining elements and the inductor currents.
\<close>

theorem modify_x0_for_ic_ground_reads_last:
  assumes "elements circ = pre @ elem # post"
    and "elem_class elem = Capacitor \<or> elem_class elem = Diode"
    and "ic elem = Some v" and "v \<noteq> 0" and "elem_n2 elem = 0"
    and "0 < elem_n1 elem" and "elem_n1 elem \<le> length x0"
  shows "modify_x0_for_ic circ x0
           = ebind (ic_voltages_loop pre x0) (\<lambda>x1.
             ebind (ic_voltages_loop post (x1[elem_n1 elem - 1 := last x1 + v]))
               (ic_currents_loop (int (length (nodes_dict circ)))
                  (filter is_elem_voltage_defined (elements circ))
                  (filter is_elem_voltage_defined (elements circ))))"
proof (cases "ic_voltages_loop pre x0")
  case (Inl e)
  then show ?thesis
    by (simp add: modify_x0_for_ic_def assms(1) ic_voltages_loop_append
        del: ic_voltages_loop.simps)
next
  case (Inr x1)
  then have "length x1 = length x0" by (rule ic_voltages_loop_length)
  with assms have "ic_voltages_loop (elem # post) x1
           = ic_voltages_loop post (x1[elem_n1 elem - 1 := last x1 + v])"
    by (intro ic_step_ground) simp_all
  with Inr have "ic_voltages_loop (elements circ) x0
           = ic_voltages_loop post (x1[elem_n1 elem - 1 := last x1 + v])"
    by (simp add: assms(1) ic_voltages_loop_append del: ic_voltages_loop.simps)
  with Inr show ?thesis
    by (simp add: modify_x0_for_ic_def Let_def)
qed

text \<open>
  On the grounded capacitor with \<open>x0 = (0, 7)\<close>, node 1 is set to \<open>7 + 2 = 9\<close>, the branch
  current of V1 plus the initial condition, and not to 2.
\<close>

theorem modify_x0_for_ic_ground_reads_last_witness:
  "modify_x0_for_ic grounded_capacitor [0, 7] = Inr [9, 7]"
  using modify_x0_for_ic_ground_reads_last [of grounded_capacitor "[]"
      "(linear_element Capacitor ''C'' ''1'' 1 0)\<lparr>ic := Some 2\<rparr>"
      "[(linear_element Vsource ''V'' ''1'' 1 0)\<lparr>vdc := 5\<rparr>]" 2 "[0, 7]"]
  by (simp add: grounded_capacitor_def linear_element_def is_elem_voltage_defined_def
      ic_true_def)

subsection \<open>Damping\<close>

lemma vget_node:
  "0 < n \<Longrightarrow> n \<le> length dx \<Longrightarrow> vget dx (int n - 1) = Inr (node_step dx n)"
  by (simp add: vget_def py_index_def node_step_def nat_diff_distrib')

lemma lock_td_new_ok:
  assumes "locked_pair_ok dx (n1, n2)"
  shows "lock_td_new opts dx n1 n2 td_new
           = Inr (let d = \<bar>node_step dx n1 - node_step dx n2\<bar>;
                      lim = nl_voltages_lock_factor opts * Vth opts
                  in if d > lim then lim / d else td_new)"
proof (cases "n1 = 0")
  case True
  with assms have "0 < n2" "n2 \<le> length dx" by (simp_all add: locked_pair_ok_def)
  then have "vget dx (int n2 - 1) = Inr (node_step dx n2)" by (rule vget_node)
  with True show ?thesis
    by (simp add: lock_td_new_def Let_def node_step_def)
next
  case False
  with assms have a: "vget dx (int n1 - 1) = Inr (node_step dx n1)"
    by (intro vget_node) (simp_all add: locked_pair_ok_def)
  show ?thesis
  proof (cases "n2 = 0")
    case True
    with False a show ?thesis
      by (simp add: lock_td_new_def Let_def node_step_def)
  next
    case n2: False
    with assms have b: "vget dx (int n2 - 1) = Inr (node_step dx n2)"
      by (intro vget_node) (simp_all add: locked_pair_ok_def)
    from False n2 a b show ?thesis
      by (simp add: lock_td_new_def Let_def)
  qed
qed

lemma get_td_loop_fold:
  assumes "list_all (locked_pair_ok dx) ps" and "td \<le> td_new"
  shows "get_td_loop opts dx ps td td_new = Inr (fold (lock_step opts dx) ps td)"
  using assms
proof (induction ps arbitrary: td td_new)
  case Nil
  show ?case by simp
next
  case (Cons p ps)
  obtain n1 n2 where p: "p = (n1, n2)" by (cases p)
  from Cons.prems p have ok: "locked_pair_ok dx (n1, n2)" and rest: "list_all (locked_pair_ok dx) ps"
    by simp_all
  let ?d = "\<bar>node_step dx n1 - node_step dx n2\<bar>"
  let ?lim = "nl_voltages_lock_factor opts * Vth opts"
  let ?tn = "if ?d > ?lim then ?lim / ?d else td_new"
  have l: "lock_td_new opts dx n1 n2 td_new = Inr ?tn"
    using lock_td_new_ok [OF ok, of opts td_new] by (simp add: Let_def)
  have s: "(if ?tn < td then ?tn else td) = lock_step opts dx p td"
    using Cons.prems(2) by (auto simp add: lock_step_def p Let_def min_def)
  have le: "(if ?tn < td then ?tn else td) \<le> ?tn" by simp
  show ?case
    using Cons.IH [OF rest le] by (simp add: p l s [unfolded p])
qed

lemma fold_lock_step_min:
  "a \<le> 1 \<Longrightarrow> fold (lock_step opts dx) ps a = min a (fold (lock_step opts dx) ps 1)"
proof (induction ps arbitrary: a)
  case Nil
  then show ?case by simp
next
  case (Cons p ps)
  have a: "lock_step opts dx p a \<le> 1"
    using Cons.prems by (simp add: lock_step_def Let_def min_def)
  have b: "lock_step opts dx p 1 \<le> 1"
    by (simp add: lock_step_def Let_def min_def)
  have c: "lock_step opts dx p a = min a (lock_step opts dx p 1)"
    using Cons.prems by (simp add: lock_step_def Let_def min_def)
  show ?case
    using Cons.IH [OF a] Cons.IH [OF b] by (simp add: c min.assoc)
qed

lemma fold_lock_step_bounds:
  assumes "0 < nl_voltages_lock_factor opts * Vth opts" and "0 < a" and "a \<le> 1"
  shows "0 < fold (lock_step opts dx) ps a \<and> fold (lock_step opts dx) ps a \<le> a"
  using assms(2,3)
proof (induction ps arbitrary: a)
  case Nil
  then show ?case by simp
next
  case (Cons p ps)
  have s: "0 < lock_step opts dx p a \<and> lock_step opts dx p a \<le> a"
    using Cons.prems assms(1) by (auto simp add: lock_step_def Let_def min_def)
  then have "lock_step opts dx p a \<le> 1" using Cons.prems by simp
  with s Cons.IH [of "lock_step opts dx p a"] show ?case by auto
qed

lemma fold_lock_step_le_step:
  assumes "0 < nl_voltages_lock_factor opts * Vth opts" and "0 < a" and "a \<le> 1"
    and "p \<in> set ps"
  shows "fold (lock_step opts dx) ps a \<le> lock_step opts dx p 1"
  using assms(2-4)
proof (induction ps arbitrary: a)
  case Nil
  then show ?case by simp
next
  case (Cons q ps)
  have s: "0 < lock_step opts dx q a \<and> lock_step opts dx q a \<le> a"
    using Cons.prems assms(1) by (auto simp add: lock_step_def Let_def min_def)
  then have s1: "lock_step opts dx q a \<le> 1" using Cons.prems by simp
  show ?case
  proof (cases "p = q")
    case True
    have "fold (lock_step opts dx) ps (lock_step opts dx q a) \<le> lock_step opts dx q a"
      using fold_lock_step_bounds [OF assms(1), of "lock_step opts dx q a" dx ps] s s1 by simp
    also have "lock_step opts dx q a \<le> lock_step opts dx q 1"
      using Cons.prems by (simp add: lock_step_def Let_def min_def)
    finally show ?thesis using True by simp
  next
    case False
    with Cons.prems have "p \<in> set ps" by simp
    with Cons.IH [of "lock_step opts dx q a"] s s1 show ?thesis by simp
  qed
qed


lemma get_td_unfold:
  "get_td opts dx locked_nodes n =
     (if nl_voltages_lock opts then get_td_loop opts dx locked_nodes (td1 opts n) 1
      else Inr (td1 opts n))"
  by (auto simp add: get_td_def td1_def Let_def)

lemma td1_bounds: "0 < td1 opts n \<and> td1 opts n \<le> 1"
  by (simp add: td1_def)

text \<open>
  Claim C6, amended.  Let \<open>nl_voltages_lock_factor * Vth\<close> be positive and let every locked
  pair have a node that is not ground and both nodes among the entries of \<open>dx\<close>.  Then
  \<open>get_td\<close> returns \<open>td = min(td1, td2)\<close> in \<open>(0, 1]\<close>, where \<open>td2\<close> counts only when
  \<open>nl_voltages_lock\<close> is on (it is 1 otherwise); and when \<open>nl_voltages_lock\<close> is on, every
  locked pair has \<open>|td*(dx[n1] - dx[n2])| \<le> nl_voltages_lock_factor * Vth\<close>.
\<close>

theorem get_td_damping:
  assumes "0 < nl_voltages_lock_factor opts * Vth opts"
    and "list_all (locked_pair_ok dx) locked_nodes"
  shows "\<exists>td. get_td opts dx locked_nodes n = Inr td
           \<and> td = min (td1 opts n) (if nl_voltages_lock opts then td2 opts dx locked_nodes else 1)
           \<and> 0 < td \<and> td \<le> 1
           \<and> (nl_voltages_lock opts \<longrightarrow>
                list_all (\<lambda>pair. \<bar>td * (node_step dx (fst pair) - node_step dx (snd pair))\<bar>
                                   \<le> nl_voltages_lock_factor opts * Vth opts) locked_nodes)"
proof (cases "nl_voltages_lock opts")
  case False
  then show ?thesis
    using td1_bounds [of opts n] by (simp add: get_td_unfold)
next
  case True
  let ?lim = "nl_voltages_lock_factor opts * Vth opts"
  let ?td = "fold (lock_step opts dx) locked_nodes (td1 opts n)"
  have b1: "0 < td1 opts n" "td1 opts n \<le> 1" using td1_bounds [of opts n] by simp_all
  have run: "get_td opts dx locked_nodes n = Inr ?td"
    using True get_td_loop_fold [OF assms(2) b1(2), of opts]
    by (simp add: get_td_unfold)
  have eq: "?td = min (td1 opts n) (td2 opts dx locked_nodes)"
    unfolding td2_def by (rule fold_lock_step_min [OF b1(2)])
  have pos: "0 < ?td" "?td \<le> 1"
    using fold_lock_step_bounds [OF assms(1) b1, of dx locked_nodes] b1(2) by simp_all
  have bound: "\<bar>?td * (node_step dx (fst p) - node_step dx (snd p))\<bar> \<le> ?lim"
    if "p \<in> set locked_nodes" for p
  proof -
    let ?d = "\<bar>node_step dx (fst p) - node_step dx (snd p)\<bar>"
    have le: "?td \<le> lock_step opts dx p 1"
      by (rule fold_lock_step_le_step [OF assms(1) b1 that])
    have "?td * ?d \<le> ?lim"
    proof (cases "?d > ?lim")
      case True
      then have d: "0 < ?d" using assms(1) by linarith
      from True le have "?td \<le> ?lim / ?d"
        by (simp add: lock_step_def Let_def)
      then show ?thesis using d by (simp add: pos_le_divide_eq)
    next
      case False
      have "?td * ?d \<le> 1 * ?d"
        by (rule mult_right_mono) (use pos in simp_all)
      with False show ?thesis by simp
    qed
    then show ?thesis using pos(1) by (simp add: abs_mult)
  qed
  from run eq pos bound True show ?thesis
    by (simp add: list_all_iff)
qed

text \<open>
  Claim C6, as stated, takes the locked-node guard for every configuration.  It fails on
  the code when \<open>nl_voltages_lock\<close> is off: the loop over the locked pairs is skipped, so
  for \<open>dx = (1)\<close> and the locked pair \<open>(1, 0)\<close> the code returns \<open>td = 1\<close>, not
  \<open>min(td1, td2) = 0.104\<close>, and \<open>|td * dx[1]| = 1\<close> exceeds the limit \<open>4 * 0.026\<close>.
\<close>

theorem get_td_claim_counterexample:
  "get_td (example_options\<lparr>nl_voltages_lock := False\<rparr>) [1] [(1, 0)] (- 1) = Inr 1
   \<and> get_td_claimed (example_options\<lparr>nl_voltages_lock := False\<rparr>) [1] [(1, 0)] (- 1) = 13 / 125
   \<and> \<not> \<bar>1 * (node_step [1] 1 - node_step [1] 0)\<bar>
         \<le> nl_voltages_lock_factor example_options * Vth example_options"
  by (simp add: get_td_def get_td_claimed_def td1_def td2_def lock_step_def node_step_def
      example_options_def)

theorem get_td_damping_witness:
  "0 < nl_voltages_lock_factor example_options * Vth example_options
   \<and> list_all (locked_pair_ok [1, 0]) [(1, 2)]
   \<and> get_td example_options [1, 0] [(1, 2)] 1 = Inr (13 / 125)
   \<and> \<bar>13 / 125 * (node_step [1, 0] 1 - node_step [1, 0] 2)\<bar>
       \<le> nl_voltages_lock_factor example_options * Vth example_options"
  using get_td_damping [of example_options "[1, 0]" "[(1, 2)]" 1]
  by (auto simp add: locked_pair_ok_def example_options_def td1_def td2_def lock_step_def
      node_step_def)

text \<open>
  A locked pair \<open>(0, 0)\<close> is outside the theorem: no branch of the loop treats both
  nodes as ground, and the branch for \<open>n1 = 0\<close> reads \<open>dx[n2 - 1] = dx[-1]\<close>, the last
  entry.
\<close>

lemma get_td_both_ground:
  "get_td example_options [1] [(0, 0)] 1 = Inr (13 / 125)
   \<and> get_td_claimed example_options [1] [(0, 0)] 1 = 1"
  by (simp add: get_td_def get_td_claimed_def td1_def td2_def lock_step_def node_step_def
      example_options_def lock_td_new_def vget_def py_index_def)

subsection \<open>The convergence-aid driver\<close>















text \<open>
  Claim C3 says that after the last factor of the schedule a solve at factor 1.0 is made
  before \<open>dc_solve\<close> declares success.  On the divider, with source stepping the only
  strategy, the ten factors 0.001, ..., 0.9 converge in turn; at index 9 the loop ends
  with \<open>converged = True\<close> and \<open>dc_solve\<close> returns the solution for nine tenths of the
  sources, \<open>(0.9, 0.45, -0.00045)\<close>, after ten iterations in all: no solve at full strength
  is made, and \<open>mna*x + N\<close> is not zero at the returned \<open>x\<close>.
\<close>

theorem dc_solve_source_stepping_stops_short:
  "dc_solve source_only divider_mna divider_N divider None None None None None None False 0
     = Some (Inr (Some [9 / 10, 9 / 20, - 9 / 20000], Some [0, 0, - 1 / 10], True, 10))
   \<and> ebind (mat_vec divider_mna [9 / 10, 9 / 20, - 9 / 20000]) (\<lambda>v. np_add v divider_N)
       = Inr [0, 0, - 1 / 10]"
proof -
  have inv: "linalg_inv [[1 / 1000, - (1 / 1000), 1], [- (1 / 1000), 1 / 500, 0], [1, 0, 0]]
      = Inr [[0, 0, 1], [0, 500, 1 / 2], [1, 1 / 2, - 1 / 2000]]"
    using divider_inverse by (simp add: divider_mna_def)
  have a: "dc_solve source_only divider_mna divider_N divider None None None None None None False 0
     = Some (Inr (Some [9 / 10, 9 / 20, - 9 / 20000], Some [0, 0, - 1 / 10], True, 10))"
    by (simp add: dc_solve_def dc_solve_while.simps dc_solve_body_def system_to_pass_def
        after_solve_def get_solve_methods_def set_next_solve_method_def
        more_solve_methods_available_def get_locked_nodes_def add_Gmin_def add_Ntran_def
        py_list_get_def py_index_def
        divider_def divider_mna_def divider_N_def
        mdn_solver_def circ_is_nonlinear_def linear_element_def nr_iteration_def inv
        mat_vec_def np_add_def np_zip_def np_scale_def
        get_td_def source_only_def example_options_def zeros_def is_elem_voltage_defined_def)
  have b: "ebind (mat_vec divider_mna [9 / 10, 9 / 20, - 9 / 20000]) (\<lambda>v. np_add v divider_N)
       = Inr [0, 0, - 1 / 10]"
    by (simp add: divider_mna_def divider_N_def mat_vec_def np_add_def np_zip_def)
  from a b show ?thesis by simp
qed

end
